theory Spec2Isabelle
  imports Complex_Main "HOL-Library.Log_Nat"
begin

section \<open>Numbers of the source language\<close>

text \<open>
  The calculator computes with JavaScript numbers, IEEE 754 double-precision values.
  They are modelled as reals extended with the three special values; the sign of zero
  is not tracked (a zero divisor is taken as \<open>+0\<close>, which is what \<open>x - x\<close> and \<open>-1 + 1\<close>
  give). No operation on numbers throws: dividing by zero yields \<open>Infinity\<close>,
  \<open>-Infinity\<close> or \<open>NaN\<close>, and every comparison with \<open>NaN\<close> is false.

  Two layers of arithmetic follow. The operations \<open>js_add\<close>, \<open>js_sub\<close>, \<open>js_mul\<close>,
  \<open>js_div\<close> and \<open>js_pow\<close> of this section compute on the values without rounding; the
  schedule, the loan payment and the formulas of the metrics bundle are written with
  them. The operations \<open>fp_add\<close>, \<open>fp_sub\<close>, \<open>fp_mul\<close>, \<open>fp_div\<close> and \<open>fp_pow\<close> of the next
  section round every result to the nearest double and overflow to the infinities;
  \<open>calculateNPV\<close>, \<open>calculateIRR\<close> and \<open>calculatePaybackPeriod\<close> are written with them.
\<close>

datatype jsnum = Num real | Infinity | NegInfinity | NaN

fun inf_of_sign :: "real \<Rightarrow> jsnum" where
  "inf_of_sign s = (if s = 0 then NaN else if 0 < s then Infinity else NegInfinity)"

fun sign_of :: "jsnum \<Rightarrow> real" where
  "sign_of (Num a) = sgn a"
| "sign_of Infinity = 1"
| "sign_of NegInfinity = - 1"
| "sign_of NaN = 0"

fun js_neg :: "jsnum \<Rightarrow> jsnum" where
  "js_neg (Num a) = Num (- a)"
| "js_neg Infinity = NegInfinity"
| "js_neg NegInfinity = Infinity"
| "js_neg NaN = NaN"

fun js_add :: "jsnum \<Rightarrow> jsnum \<Rightarrow> jsnum" where
  "js_add (Num a) (Num b) = Num (a + b)"
| "js_add NaN y = NaN"
| "js_add x NaN = NaN"
| "js_add Infinity NegInfinity = NaN"
| "js_add NegInfinity Infinity = NaN"
| "js_add Infinity y = Infinity"
| "js_add x Infinity = Infinity"
| "js_add NegInfinity y = NegInfinity"
| "js_add x NegInfinity = NegInfinity"

definition js_sub :: "jsnum \<Rightarrow> jsnum \<Rightarrow> jsnum" where
  "js_sub x y = js_add x (js_neg y)"

fun js_mul :: "jsnum \<Rightarrow> jsnum \<Rightarrow> jsnum" where
  "js_mul (Num a) (Num b) = Num (a * b)"
| "js_mul NaN y = NaN"
| "js_mul x NaN = NaN"
| "js_mul x y = inf_of_sign (sign_of x * sign_of y)"

fun js_div :: "jsnum \<Rightarrow> jsnum \<Rightarrow> jsnum" where
  "js_div (Num a) (Num b) = (if b \<noteq> 0 then Num (a / b) else inf_of_sign a)"
| "js_div NaN y = NaN"
| "js_div x NaN = NaN"
| "js_div (Num a) y = Num 0"
| "js_div x (Num b) = (if 0 \<le> b then x else js_neg x)"
| "js_div x y = NaN"

text \<open>\<open>Math.pow\<close> with a whole-number exponent; \<open>Math.pow(x, 0)\<close> is 1 for every \<open>x\<close>.\<close>

fun js_pow :: "jsnum \<Rightarrow> nat \<Rightarrow> jsnum" where
  "js_pow x 0 = Num 1"
| "js_pow x (Suc n) = js_mul x (js_pow x n)"

fun js_abs :: "jsnum \<Rightarrow> jsnum" where
  "js_abs (Num a) = Num \<bar>a\<bar>"
| "js_abs Infinity = Infinity"
| "js_abs NegInfinity = Infinity"
| "js_abs NaN = NaN"

fun js_lt :: "jsnum \<Rightarrow> jsnum \<Rightarrow> bool" where
  "js_lt (Num a) (Num b) = (a < b)"
| "js_lt NaN y = False"
| "js_lt x NaN = False"
| "js_lt x NegInfinity = False"
| "js_lt Infinity y = False"
| "js_lt x y = True"

definition js_gt :: "jsnum \<Rightarrow> jsnum \<Rightarrow> bool" where
  "js_gt x y = js_lt y x"

fun js_ge :: "jsnum \<Rightarrow> jsnum \<Rightarrow> bool" where
  "js_ge (Num a) (Num b) = (b \<le> a)"
| "js_ge NaN y = False"
| "js_ge x NaN = False"
| "js_ge Infinity y = True"
| "js_ge x NegInfinity = True"
| "js_ge x y = False"

definition js_le :: "jsnum \<Rightarrow> jsnum \<Rightarrow> bool" where
  "js_le x y = js_ge y x"

text \<open>Strict equality \<open>===\<close> on numbers: \<open>NaN\<close> equals nothing, not even itself.\<close>

fun js_eq :: "jsnum \<Rightarrow> jsnum \<Rightarrow> bool" where
  "js_eq NaN y = False"
| "js_eq x NaN = False"
| "js_eq x y = (x = y)"

fun isNaN :: "jsnum \<Rightarrow> bool" where
  "isNaN NaN = True"
| "isNaN x = False"

text \<open>
  \<open>Array.prototype.reduce\<close> with the three-argument callback
  \<open>(accumulator, element, index)\<close> and an initial value.
\<close>

fun reduce_from :: "('b \<Rightarrow> 'a \<Rightarrow> nat \<Rightarrow> 'b) \<Rightarrow> nat \<Rightarrow> 'b \<Rightarrow> 'a list \<Rightarrow> 'b" where
  "reduce_from f i acc [] = acc"
| "reduce_from f i acc (x # xs) = reduce_from f (Suc i) (f acc x i) xs"

definition reduce :: "('b \<Rightarrow> 'a \<Rightarrow> nat \<Rightarrow> 'b) \<Rightarrow> 'a list \<Rightarrow> 'b \<Rightarrow> 'b" where
  "reduce f xs init = reduce_from f 0 init xs"

section \<open>Rounding to double precision\<close>

text \<open>
  A finite double is a whole multiple \<open>k * 2^e\<close> with \<open>|k| < 2^53\<close> and
  \<open>-1074 \<le> e \<le> 970\<close>. Every operation of the language returns the double nearest to
  the exact result, a tie going to the even multiple, and an infinity when the rounded
  magnitude reaches \<open>2^1024\<close>.

  \<open>rhe\<close> rounds a real to the nearest integer, ties to even. \<open>ulp_shift x\<close> is the
  exponent of the spacing of the doubles at the magnitude \<open>x\<close>, counted from the
  smallest spacing \<open>2^-1074\<close>: the number of bits of \<open>x / 2^-1074\<close> beyond 53, and 0 in
  the subnormal range. \<open>round_mag\<close> rounds a magnitude to that spacing and \<open>fl\<close> rounds
  a real to a double or an infinity.
\<close>

definition rhe :: "real \<Rightarrow> int" where
  "rhe x = (let f = \<lfloor>x\<rfloor>; d = x - of_int f in
     if d < 1 / 2 then f else if 1 / 2 < d then f + 1 else if even f then f else f + 1)"

definition dscale :: nat where
  "dscale = 1074"

definition dtop :: nat where
  "dtop = 1024"

definition ulp_shift :: "real \<Rightarrow> nat" where
  "ulp_shift x = nat (bitlen \<lfloor>x * 2 ^ dscale\<rfloor> - 53)"

definition round_mag :: "real \<Rightarrow> real" where
  "round_mag x =
     of_int (rhe (x * 2 ^ dscale / 2 ^ ulp_shift x)) * 2 ^ ulp_shift x / 2 ^ dscale"

definition fl :: "real \<Rightarrow> jsnum" where
  "fl x = (let m = round_mag \<bar>x\<bar> in
     if 2 ^ dtop \<le> m then (if 0 < x then Infinity else NegInfinity)
     else Num (if 0 \<le> x then m else - m))"


definition on_grid :: "real \<Rightarrow> bool" where
  "on_grid r = (\<exists>k::int. r = of_int k / 2 ^ dscale)"

text \<open>
  The operators of the language on doubles: the exact result, rounded. A special
  value as operand gives what the unrounded operation gives. \<open>Math.pow\<close> with a
  whole-number exponent is taken as correctly rounded.
\<close>

definition fp_add :: "jsnum \<Rightarrow> jsnum \<Rightarrow> jsnum" where
  "fp_add x y = (case (x, y) of (Num a, Num b) \<Rightarrow> fl (a + b) | _ \<Rightarrow> js_add x y)"

definition fp_sub :: "jsnum \<Rightarrow> jsnum \<Rightarrow> jsnum" where
  "fp_sub x y = (case (x, y) of (Num a, Num b) \<Rightarrow> fl (a - b) | _ \<Rightarrow> js_sub x y)"

definition fp_mul :: "jsnum \<Rightarrow> jsnum \<Rightarrow> jsnum" where
  "fp_mul x y = (case (x, y) of (Num a, Num b) \<Rightarrow> fl (a * b) | _ \<Rightarrow> js_mul x y)"

definition fp_div :: "jsnum \<Rightarrow> jsnum \<Rightarrow> jsnum" where
  "fp_div x y =
     (case (x, y) of
        (Num a, Num b) \<Rightarrow> if b \<noteq> 0 then fl (a / b) else inf_of_sign a
      | _ \<Rightarrow> js_div x y)"

definition fp_pow :: "jsnum \<Rightarrow> nat \<Rightarrow> jsnum" where
  "fp_pow x n = (case x of Num a \<Rightarrow> fl (a ^ n) | _ \<Rightarrow> js_pow x n)"

section \<open>The financial functions\<close>

subsection \<open>calculateNPV\<close>

definition calculateNPV :: "jsnum list \<Rightarrow> jsnum \<Rightarrow> jsnum \<Rightarrow> jsnum" where
  "calculateNPV cashFlows discountRate initialInvestment =
     reduce (\<lambda>npv cashFlow year.
               fp_add npv (fp_div cashFlow (fp_pow (fp_add (Num 1) discountRate) (year + 1))))
            cashFlows (js_neg initialInvestment)"

subsection \<open>calculateIRR\<close>

text \<open>The literals \<open>0.000001\<close> and \<open>0.1\<close> of the source denote the nearest doubles.\<close>

definition epsilon :: jsnum where
  "epsilon = fl 0.000001"

definition derivativeNpv :: "jsnum list \<Rightarrow> jsnum \<Rightarrow> jsnum" where
  "derivativeNpv cashFlows guess =
     reduce (\<lambda>acc cf i.
               fp_sub acc (fp_div (fp_mul (Num (real i)) cf)
                                  (fp_pow (fp_add (Num 1) guess) (i + 1))))
            cashFlows (Num 0)"

text \<open>
  The \<open>while\<close> loop of \<open>calculateIRR\<close>, with \<open>maxIterations\<close> as the decreasing counter.
  The source has four return points; the result records which one was taken.
\<close>

datatype irr_exit =
    NpvConverged jsnum
  | StepConverged jsnum
  | ZeroDerivative
  | IterationsExhausted

fun irr_loop :: "jsnum list \<Rightarrow> nat \<Rightarrow> jsnum \<Rightarrow> irr_exit" where
  "irr_loop cashFlows 0 guess = IterationsExhausted"
| "irr_loop cashFlows (Suc maxIterations) guess =
     (let npv = calculateNPV cashFlows guess (Num 0) in
      if js_lt (js_abs npv) epsilon then NpvConverged guess
      else if js_eq (derivativeNpv cashFlows guess) (Num 0) then ZeroDerivative
      else
        let nextGuess = fp_sub guess (fp_div npv (derivativeNpv cashFlows guess)) in
        if js_lt (js_abs (fp_sub nextGuess guess)) epsilon then StepConverged nextGuess
        else irr_loop cashFlows maxIterations nextGuess)"

definition irr_run :: "jsnum list \<Rightarrow> irr_exit" where
  "irr_run cashFlows = irr_loop cashFlows 100 (fl 0.1)"

definition calculateIRR :: "jsnum list \<Rightarrow> jsnum option" where
  "calculateIRR cashFlows =
     (case irr_run cashFlows of
        NpvConverged guess \<Rightarrow> Some guess
      | StepConverged nextGuess \<Rightarrow> Some nextGuess
      | ZeroDerivative \<Rightarrow> None
      | IterationsExhausted \<Rightarrow> None)"

subsection \<open>calculatePaybackPeriod\<close>

text \<open>
  The \<open>for\<close> loop of \<open>calculatePaybackPeriod\<close>. At the crossing the source recomputes the
  previous cumulative as \<open>cumulativeCashFlow - cashFlows[i]\<close>, a rounded subtraction.
\<close>

fun payback_loop :: "jsnum list \<Rightarrow> nat \<Rightarrow> jsnum \<Rightarrow> jsnum option" where
  "payback_loop [] i cumulativeBefore = None"
| "payback_loop (cf # rest) i cumulativeBefore =
     (let cumulativeCashFlow = fp_add cumulativeBefore cf in
      if js_ge cumulativeCashFlow (Num 0) then
        let previousCumulative = fp_sub cumulativeCashFlow cf;
            fraction = fp_div (js_neg previousCumulative) cf
        in Some (fp_add (Num (real i)) fraction)
      else payback_loop rest (Suc i) cumulativeCashFlow)"

definition calculatePaybackPeriod :: "jsnum list \<Rightarrow> jsnum \<Rightarrow> jsnum option" where
  "calculatePaybackPeriod cashFlows initialInvestment =
     payback_loop cashFlows 0 (js_neg initialInvestment)"

subsection \<open>calculateLoanPayment\<close>

definition calculateLoanPayment :: "real \<Rightarrow> real \<Rightarrow> nat \<Rightarrow> jsnum" where
  "calculateLoanPayment principal' annualRate termYears =
     (let monthlyRate = annualRate / 12 / 100;
          numberOfPayments = termYears * 12
      in js_div (Num (principal' * monthlyRate * (1 + monthlyRate) ^ numberOfPayments))
                (Num ((1 + monthlyRate) ^ numberOfPayments - 1)))"

section \<open>The component state read by the engine\<close>

text \<open>
  The assumptions are the \<open>useState\<close> values of \<open>FinancialCalculator\<close> that the metrics
  read. Every numeric input passes \<open>validateInput\<close>, which replaces \<open>NaN\<close> by the minimum
  and clamps to a finite range, so inputs are reals. Year counts (\<open>operationalYears\<close>,
  the loan term) are whole numbers.
\<close>

record LoanDetails =
  apr :: real
  loan_term :: nat
  downPayment :: real

record EvDetails =
  numStations :: real
  costPerStation :: real
  pricePerKwh :: real
  sessionsPerDay :: real
  energyPerSession :: real
  operationalYears :: nat

record SolarSystem =
  systemSize :: real
  costPerWatt :: real
  annualProduction :: real

record BatteryDetails =
  numBatteries :: real
  costPerBattery :: real

record MaintenanceCosts =
  evChargerAnnual :: real
  solarAnnual :: real
  batteryAnnual :: real

record Incentives =
  baseTaxCredit :: real
  additionalTaxCredit :: bool
  utilityRebatePerCharger :: real

record ProjectAssumptions =
  financingType :: string
  loanDetails :: LoanDetails
  location :: string
  evDetails :: EvDetails
  solarSystem :: SolarSystem
  batteryDetails :: BatteryDetails
  gridElectricity_rate :: real
  maintenanceCosts :: MaintenanceCosts
  incentives :: Incentives
  annualUtilityRate :: real
  evChargeEscalator :: real
  includeBattery :: bool
  solarOffset :: real

record CashFlowYear =
  year :: nat
  evRevenue :: real
  gridCost :: real
  maintenanceCost :: real
  loanPayment :: jsnum
  profit :: jsnum
  taxes :: jsnum
  depreciation :: real
  cashFlow :: jsnum
  cumulativeCashFlow :: jsnum
  discountedCashFlow :: jsnum

subsection \<open>Project totals\<close>

definition totalSolarCost :: "ProjectAssumptions \<Rightarrow> real" where
  "totalSolarCost a = systemSize (solarSystem a) * 1000 * costPerWatt (solarSystem a)"

definition totalEvStationsCost :: "ProjectAssumptions \<Rightarrow> real" where
  "totalEvStationsCost a = numStations (evDetails a) * costPerStation (evDetails a)"

definition totalBatteryCost :: "ProjectAssumptions \<Rightarrow> real" where
  "totalBatteryCost a =
     (if includeBattery a
      then numBatteries (batteryDetails a) * costPerBattery (batteryDetails a) else 0)"

definition totalProjectCost :: "ProjectAssumptions \<Rightarrow> real" where
  "totalProjectCost a = totalSolarCost a + totalEvStationsCost a + totalBatteryCost a"

definition baseTaxCreditAmount :: "ProjectAssumptions \<Rightarrow> real" where
  "baseTaxCreditAmount a = totalProjectCost a * (baseTaxCredit (incentives a) / 100)"

definition additionalTaxCreditAmount :: "ProjectAssumptions \<Rightarrow> real" where
  "additionalTaxCreditAmount a =
     (if additionalTaxCredit (incentives a) then totalProjectCost a * 0.1 else 0)"

definition utilityRebateAmount :: "ProjectAssumptions \<Rightarrow> real" where
  "utilityRebateAmount a =
     numStations (evDetails a) * utilityRebatePerCharger (incentives a)"

definition annualSrecs :: "ProjectAssumptions \<Rightarrow> real" where
  "annualSrecs a = of_int \<lfloor>annualProduction (solarSystem a) / 1000\<rfloor>"

definition srecPrice :: "ProjectAssumptions \<Rightarrow> real" where
  "srecPrice a =
     (if location a = ''MD'' then 80 else if location a = ''DC'' then 350 else 0)"

definition annualSrecRevenue :: "ProjectAssumptions \<Rightarrow> real" where
  "annualSrecRevenue a = annualSrecs a * srecPrice a"

definition totalIncentives :: "ProjectAssumptions \<Rightarrow> real" where
  "totalIncentives a =
     baseTaxCreditAmount a + additionalTaxCreditAmount a + utilityRebateAmount a"

definition netProjectCost :: "ProjectAssumptions \<Rightarrow> real" where
  "netProjectCost a = totalProjectCost a - totalIncentives a"

subsection \<open>The depreciation table\<close>

definition macrsSchedule :: "real list" where
  "macrsSchedule =
     [0.2, 0.32, 0.192, 0.1152, 0.1152, 0.0576, 0, 0, 0, 0, 0, 0, 0, 0, 0, 0, 0, 0, 0, 0]"

text \<open>
  \<open>xs[i]\<close> is \<open>undefined\<close> past the end of the array, and \<open>v || 0\<close> is 0 when \<open>v\<close> is
  \<open>undefined\<close> or 0 and \<open>v\<close> otherwise.
\<close>

definition js_index :: "'a list \<Rightarrow> nat \<Rightarrow> 'a option" where
  "js_index xs i = (if i < length xs then Some (xs ! i) else None)"

definition or_zero :: "real option \<Rightarrow> real" where
  "or_zero v = (case v of None \<Rightarrow> 0 | Some x \<Rightarrow> if x = 0 then 0 else x)"

subsection \<open>The yearly cash flows inside financialMetrics\<close>

definition initialInvestment :: "ProjectAssumptions \<Rightarrow> real" where
  "initialInvestment a = netProjectCost a"

definition discountRate :: "ProjectAssumptions \<Rightarrow> real" where
  "discountRate a =
     (if financingType a = ''loan'' then apr (loanDetails a) / 100 else 0.1)"

definition evEnergyDemand :: "ProjectAssumptions \<Rightarrow> real" where
  "evEnergyDemand a =
     numStations (evDetails a) * sessionsPerDay (evDetails a)
       * energyPerSession (evDetails a) * 365"

definition solarEnergyUsed :: "ProjectAssumptions \<Rightarrow> real" where
  "solarEnergyUsed a =
     min (annualProduction (solarSystem a)) (evEnergyDemand a * (solarOffset a / 100))"

definition cashFlowRow :: "ProjectAssumptions \<Rightarrow> nat \<Rightarrow> CashFlowYear" where
  "cashFlowRow a = (\<lambda>year.
     let gridEnergyUsed = max 0 (evEnergyDemand a - solarEnergyUsed a);
         evRevenue =
           numStations (evDetails a) * sessionsPerDay (evDetails a)
             * energyPerSession (evDetails a)
             * (pricePerKwh (evDetails a) * (1 + evChargeEscalator a) ^ year) * 365;
         gridCost = gridEnergyUsed * gridElectricity_rate a * (1 + annualUtilityRate a) ^ year;
         maintenanceCost =
           (evChargerAnnual (maintenanceCosts a) * numStations (evDetails a)
              + solarAnnual (maintenanceCosts a)) * 1.03 ^ year;
         batteryCost =
           (if includeBattery a
            then batteryAnnual (maintenanceCosts a) * numBatteries (batteryDetails a)
                   * 1.03 ^ year
            else 0);
         totalMaintenanceCost = maintenanceCost + batteryCost;
         loanPayment =
           (if financingType a = ''loan'' \<and> year < loan_term (loanDetails a)
            then calculateLoanPayment (totalProjectCost a - downPayment (loanDetails a))
                   (apr (loanDetails a)) (loan_term (loanDetails a))
            else Num 0);
         profit = js_sub (Num (evRevenue - gridCost - totalMaintenanceCost)) loanPayment;
         depreciableBasis = totalProjectCost a - 0.5 * baseTaxCreditAmount a;
         depreciation = or_zero (js_index macrsSchedule year) * depreciableBasis;
         taxableIncome = js_sub profit (Num depreciation);
         taxes = (if js_gt taxableIncome (Num 0) then js_mul taxableIncome (Num 0.21)
                  else Num 0);
         cashFlow = js_sub profit taxes;
         cumulativeStart = (if year = 0 then Num (- netProjectCost a) else Num 0);
         cumulativeCashFlow = js_add cumulativeStart cashFlow;
         discountedCashFlow = js_div cashFlow (Num ((1 + discountRate a) ^ (year + 1)))
     in \<lparr> year = year + 1,
          evRevenue = evRevenue,
          gridCost = gridCost,
          maintenanceCost = totalMaintenanceCost,
          loanPayment = loanPayment,
          profit = profit,
          taxes = taxes,
          depreciation = depreciation,
          cashFlow = cashFlow,
          cumulativeCashFlow = cumulativeCashFlow,
          discountedCashFlow = discountedCashFlow \<rparr>)"

text \<open>\<open>Array.from({ length: operationalYears }, (_, year) => ...)\<close>.\<close>

definition cashFlows :: "ProjectAssumptions \<Rightarrow> CashFlowYear list" where
  "cashFlows a = map (cashFlowRow a) [0 ..< operationalYears (evDetails a)]"

definition cashFlowsOnly :: "ProjectAssumptions \<Rightarrow> jsnum list" where
  "cashFlowsOnly a = map cashFlow (cashFlows a)"

subsection \<open>The metrics bundle\<close>

definition annualEvRevenue :: "ProjectAssumptions \<Rightarrow> real" where
  "annualEvRevenue a =
     numStations (evDetails a) * sessionsPerDay (evDetails a)
       * energyPerSession (evDetails a) * pricePerKwh (evDetails a) * 365"

definition loanTotalCost :: "ProjectAssumptions \<Rightarrow> real" where
  "loanTotalCost a =
     (if financingType a = ''loan''
      then apr (loanDetails a) / 100 * real (loan_term (loanDetails a))
             * (totalProjectCost a - downPayment (loanDetails a)) + totalProjectCost a
      else 0)"

definition npv :: "ProjectAssumptions \<Rightarrow> jsnum" where
  "npv a = calculateNPV (cashFlowsOnly a) (Num (discountRate a)) (Num (initialInvestment a))"

definition irr :: "ProjectAssumptions \<Rightarrow> jsnum option" where
  "irr a = calculateIRR (Num (- initialInvestment a) # cashFlowsOnly a)"

definition paybackPeriod :: "ProjectAssumptions \<Rightarrow> jsnum option" where
  "paybackPeriod a = calculatePaybackPeriod (cashFlowsOnly a) (Num (initialInvestment a))"

definition totalCashFlow :: "ProjectAssumptions \<Rightarrow> jsnum" where
  "totalCashFlow a = reduce (\<lambda>sum flow i. js_add sum flow) (cashFlowsOnly a) (Num 0)"

definition totalYears :: "ProjectAssumptions \<Rightarrow> nat" where
  "totalYears a = operationalYears (evDetails a)"

definition roi :: "ProjectAssumptions \<Rightarrow> jsnum" where
  "roi a =
     js_mul (js_div (js_sub (totalCashFlow a) (Num (initialInvestment a)))
                    (Num (initialInvestment a)))
            (Num 100)"

definition annualizedROI :: "ProjectAssumptions \<Rightarrow> jsnum" where
  "annualizedROI a = js_div (roi a) (Num (real (totalYears a)))"

text \<open>
  The values a property of the returned object can hold, and the evaluation of an
  object literal: the properties are defined in source order, and a later property of
  the same name replaces the earlier one.
\<close>

datatype jsval = Number jsnum | Null | Rows "CashFlowYear list"

definition object_literal :: "(string \<times> jsval) list \<Rightarrow> (string \<rightharpoonup> jsval)" where
  "object_literal props = foldl (\<lambda>obj (k, v). obj(k \<mapsto> v)) Map.empty props"

definition financialMetrics :: "ProjectAssumptions \<Rightarrow> (string \<rightharpoonup> jsval)" where
  "financialMetrics a = object_literal
     [ (''totalProjectCost'', Number (Num (totalProjectCost a))),
       (''totalIncentives'', Number (Num (totalIncentives a))),
       (''netProjectCost'', Number (Num (netProjectCost a))),
       (''incentivePercentage'',
          Number (js_mul (js_div (Num (totalIncentives a)) (Num (totalProjectCost a)))
                         (Num 100))),
       (''annualEvRevenue'', Number (Num (annualEvRevenue a))),
       (''baseTaxCreditAmount'', Number (Num (baseTaxCreditAmount a))),
       (''additionalTaxCreditAmount'', Number (Num (additionalTaxCreditAmount a))),
       (''utilityRebateAmount'', Number (Num (utilityRebateAmount a))),
       (''irr'', (case irr a of Some r \<Rightarrow> Number (js_mul r (Num 100)) | None \<Rightarrow> Null)),
       (''paybackPeriod'', (case paybackPeriod a of Some p \<Rightarrow> Number p | None \<Rightarrow> Null)),
       (''npv'', (if \<not> isNaN (npv a) then Number (npv a) else Null)),
       (''totalRevenue'', Number (totalCashFlow a)),
       (''annualSrecRevenue'', Number (Num (annualSrecRevenue a))),
       (''annualizedROI'', Number (js_mul (annualizedROI a) (Num 100))),
       (''cashFlows'', Rows (cashFlows a)),
       (''loanTotalCost'', Number (Num (loanTotalCost a))),
       (''evEnergyDemand'', Number (Num (evEnergyDemand a))),
       (''solarEnergyUsed'', Number (Num (solarEnergyUsed a))),
       (''roi'', Number (roi a)),
       (''annualizedROI'', Number (annualizedROI a)) ]"

subsection \<open>The initial state of the component\<close>

definition defaultAssumptions :: ProjectAssumptions where
  "defaultAssumptions =
     \<lparr> financingType = ''cash'',
       loanDetails = \<lparr> apr = 5, loan_term = 10, downPayment = 20000 \<rparr>,
       location = ''MD'',
       evDetails = \<lparr> numStations = 4, costPerStation = 50000, pricePerKwh = 0.45,
                     sessionsPerDay = 6, energyPerSession = 30, operationalYears = 20 \<rparr>,
       solarSystem = \<lparr> systemSize = 100, costPerWatt = 1.8, annualProduction = 120000 \<rparr>,
       batteryDetails = \<lparr> numBatteries = 1, costPerBattery = 100000 \<rparr>,
       gridElectricity_rate = 0.12,
       maintenanceCosts = \<lparr> evChargerAnnual = 500, solarAnnual = 1000,
                            batteryAnnual = 200 \<rparr>,
       incentives = \<lparr> baseTaxCredit = 30, additionalTaxCredit = False,
                      utilityRebatePerCharger = 15000 \<rparr>,
       annualUtilityRate = 0.03,
       evChargeEscalator = 0.02,
       includeBattery = False,
       solarOffset = 50 \<rparr>"

definition oneYearAssumptions :: ProjectAssumptions where
  "oneYearAssumptions =
     defaultAssumptions
       \<lparr> evDetails := (evDetails defaultAssumptions) \<lparr> operationalYears := 1 \<rparr> \<rparr>"

subsection \<open>The older copy of calculatePaybackPeriod\<close>

text \<open>
  The repository holds a second, older copy of the calculator (\<open>unnamed/part_002\<close>). Its
  \<open>calculateNPV\<close>, \<open>calculateIRR\<close> and \<open>calculateLoanPayment\<close> are the ones above; its
  \<open>calculatePaybackPeriod\<close> returns \<open>i + cumulativeCashFlow / cashFlows[i]\<close> instead.
\<close>

fun payback_loop_part002 :: "jsnum list \<Rightarrow> nat \<Rightarrow> jsnum \<Rightarrow> jsnum option" where
  "payback_loop_part002 [] i cumulativeBefore = None"
| "payback_loop_part002 (cf # rest) i cumulativeBefore =
     (let cumulativeCashFlow = fp_add cumulativeBefore cf in
      if js_ge cumulativeCashFlow (Num 0)
      then Some (fp_add (Num (real i)) (fp_div cumulativeCashFlow cf))
      else payback_loop_part002 rest (Suc i) cumulativeCashFlow)"

definition calculatePaybackPeriod_part002 :: "jsnum list \<Rightarrow> jsnum \<Rightarrow> jsnum option" where
  "calculatePaybackPeriod_part002 =
     (\<lambda>cashFlows initialInvestment.
        payback_loop_part002 cashFlows 0 (js_neg initialInvestment))"

section \<open>Notions used to state the properties\<close>








text \<open>
  The Newton iteration as a sequence: the guess before iteration \<open>k\<close>, and the three
  tests an iteration makes on it.
\<close>

fun newton_guess :: "jsnum list \<Rightarrow> nat \<Rightarrow> jsnum" where
  "newton_guess cfs 0 = fl 0.1"
| "newton_guess cfs (Suc k) =
     (let g = newton_guess cfs k
      in fp_sub g (fp_div (calculateNPV cfs g (Num 0)) (derivativeNpv cfs g)))"

definition npv_within_tolerance :: "jsnum list \<Rightarrow> nat \<Rightarrow> bool" where
  "npv_within_tolerance cfs k =
     js_lt (js_abs (calculateNPV cfs (newton_guess cfs k) (Num 0))) epsilon"

definition derivative_is_zero :: "jsnum list \<Rightarrow> nat \<Rightarrow> bool" where
  "derivative_is_zero cfs k = js_eq (derivativeNpv cfs (newton_guess cfs k)) (Num 0)"

definition step_within_tolerance :: "jsnum list \<Rightarrow> nat \<Rightarrow> bool" where
  "step_within_tolerance cfs k =
     js_lt (js_abs (fp_sub (newton_guess cfs (Suc k)) (newton_guess cfs k))) epsilon"

definition iteration_continues :: "jsnum list \<Rightarrow> nat \<Rightarrow> bool" where
  "iteration_continues cfs k =
     (\<not> npv_within_tolerance cfs k \<and> \<not> derivative_is_zero cfs k
      \<and> \<not> step_within_tolerance cfs k)"

definition exits_at :: "jsnum list \<Rightarrow> nat \<Rightarrow> bool" where
  "exits_at cfs k =
     (k < 100 \<and> (\<forall>j<k. iteration_continues cfs j) \<and> \<not> iteration_continues cfs k)"

section \<open>Arithmetic on finite numbers\<close>

lemma js_sub_Num [simp]: "js_sub (Num a) (Num b) = Num (a - b)"
  by (simp add: js_sub_def)

lemma js_pow_Num [simp]: "js_pow (Num x) n = Num (x ^ n)"
  by (induction n) simp_all

lemma js_add_NaN_left [simp]: "js_add NaN y = NaN"
  by (cases y) simp_all

lemma js_sub_NaN_left [simp]: "js_sub NaN y = NaN"
  by (simp add: js_sub_def)

lemma js_sub_NaN_right [simp]: "js_sub x NaN = NaN"
  by (cases x) (simp_all add: js_sub_def)

lemma js_div_NaN_right [simp]: "js_div x NaN = NaN"
  by (cases x) simp_all

section \<open>The loan payment at a zero rate\<close>

lemma calculateLoanPayment_rate_0: "calculateLoanPayment p 0 n = NaN"
  by (simp add: calculateLoanPayment_def)

text \<open>
  Claim C2: called with annual rate 0 the amortization calculator returns
  \<open>P / (n * 12)\<close> and does not divide by zero. The function has no zero-rate branch:
  the monthly rate is 0, the formula is \<open>0 / 0\<close>, and the result is \<open>NaN\<close>, for a loan
  of 100000 over 10 years as for every other principal and term.
\<close>

theorem calculateLoanPayment_zero_rate_NaN:
  "calculateLoanPayment 100000 0 10 = NaN
   \<and> calculateLoanPayment 100000 0 10 \<noteq> Num (100000 / (10 * 12))"
  by (simp add: calculateLoanPayment_def)

section \<open>Properties of the rounding\<close>

subsection \<open>Rounding to the nearest integer\<close>

lemma rhe_of_int [simp]: "rhe (of_int k) = k"
  by (simp add: rhe_def)

lemma rhe_lower: "\<lfloor>x\<rfloor> \<le> rhe x"
  by (simp add: rhe_def Let_def)

lemma rhe_upper: "rhe x \<le> \<lfloor>x\<rfloor> + 1"
  by (simp add: rhe_def Let_def)

lemma rhe_mono: "x \<le> y \<Longrightarrow> rhe x \<le> rhe y"
proof -
  assume xy: "x \<le> y"
  then have f: "\<lfloor>x\<rfloor> \<le> \<lfloor>y\<rfloor>" by (rule floor_mono)
  show ?thesis
  proof (cases "\<lfloor>x\<rfloor> = \<lfloor>y\<rfloor>")
    case True
    with xy have "x - of_int \<lfloor>x\<rfloor> \<le> y - of_int \<lfloor>y\<rfloor>" by simp
    with True show ?thesis by (auto simp: rhe_def Let_def)
  next
    case False
    with f have "\<lfloor>x\<rfloor> + 1 \<le> \<lfloor>y\<rfloor>" by simp
    with rhe_upper[of x] rhe_lower[of y] show ?thesis by linarith
  qed
qed

lemma rhe_ge_int: "of_int k \<le> x \<Longrightarrow> k \<le> rhe x"
  using rhe_mono[of "of_int k" x] by simp

lemma rhe_le_int: "x \<le> of_int k \<Longrightarrow> rhe x \<le> k"
  using rhe_mono[of x "of_int k"] by simp

subsection \<open>The spacing of the doubles\<close>

lemma bitlen_le_nat: "bitlen n \<le> int k \<longleftrightarrow> n < 2 ^ k"
  using bitlen_le_iff_power[of n "int k"] by simp

lemma bitlen_ge_nat: "int (Suc k) \<le> bitlen n \<longleftrightarrow> 2 ^ k \<le> n"
proof -
  have "nat (int (Suc k)) - 1 = k" by simp
  moreover have "\<not> int (Suc k) \<le> 0" by simp
  ultimately show ?thesis
    using bitlen_ge_iff_power[of "int (Suc k)" n] by (simp only: simp_thms)
qed

lemma floor_less_pow2: "\<lfloor>x\<rfloor> < 2 ^ k \<longleftrightarrow> x < 2 ^ k"
proof -
  have "\<lfloor>x\<rfloor> < 2 ^ k \<longleftrightarrow> x < of_int (2 ^ k)" by (rule floor_less_iff)
  then show ?thesis by simp
qed

lemma pow2_le_floor: "2 ^ k \<le> \<lfloor>x\<rfloor> \<longleftrightarrow> 2 ^ k \<le> x"
proof -
  have "2 ^ k \<le> \<lfloor>x\<rfloor> \<longleftrightarrow> of_int (2 ^ k) \<le> x" by (rule le_floor_iff)
  then show ?thesis by simp
qed

lemma ulp_shift_eqI:
  assumes "s = 0 \<or> 2 ^ (52 + s) \<le> x * 2 ^ dscale" and "x * 2 ^ dscale < 2 ^ (53 + s)"
  shows "ulp_shift x = s"
proof -
  let ?n = "\<lfloor>x * 2 ^ dscale\<rfloor>"
  from assms(2) have le: "bitlen ?n \<le> int (53 + s)"
    by (simp only: bitlen_le_nat floor_less_pow2)
  show ?thesis
  proof (cases "s = 0")
    case True
    with le show ?thesis by (simp add: ulp_shift_def)
  next
    case False
    with assms(1) have "2 ^ (52 + s) \<le> x * 2 ^ dscale" by simp
    then have "int (Suc (52 + s)) \<le> bitlen ?n"
      by (simp only: bitlen_ge_nat pow2_le_floor)
    with le have "bitlen ?n = int (53 + s)" by simp
    then show ?thesis by (simp add: ulp_shift_def)
  qed
qed

lemma ulp_shift_upper: "x * 2 ^ dscale < 2 ^ (53 + ulp_shift x)"
proof -
  let ?n = "\<lfloor>x * 2 ^ dscale\<rfloor>"
  have "bitlen ?n \<le> int (53 + ulp_shift x)" by (simp add: ulp_shift_def)
  then show ?thesis by (simp only: bitlen_le_nat floor_less_pow2)
qed

lemma ulp_shift_lower:
  assumes "0 < ulp_shift x"
  shows "2 ^ (52 + ulp_shift x) \<le> x * 2 ^ dscale"
proof -
  let ?n = "\<lfloor>x * 2 ^ dscale\<rfloor>"
  from assms have "bitlen ?n = int (53 + ulp_shift x)" by (simp add: ulp_shift_def)
  then have "int (Suc (52 + ulp_shift x)) \<le> bitlen ?n" by simp
  then show ?thesis by (simp only: bitlen_ge_nat pow2_le_floor)
qed

lemma ulp_shift_mono: "x \<le> y \<Longrightarrow> ulp_shift x \<le> ulp_shift y"
proof -
  assume "x \<le> y"
  then have "\<lfloor>x * 2 ^ dscale\<rfloor> \<le> \<lfloor>y * 2 ^ dscale\<rfloor>" by (intro floor_mono) simp
  then have "bitlen \<lfloor>x * 2 ^ dscale\<rfloor> \<le> bitlen \<lfloor>y * 2 ^ dscale\<rfloor>"
    unfolding bitlen_def by (intro of_nat_mono floorlog_mono nat_mono)
  then show ?thesis by (simp add: ulp_shift_def)
qed

subsection \<open>Rounding a magnitude\<close>


lemma round_mag_le_top:
  "round_mag x \<le> 2 ^ (53 + ulp_shift x) / 2 ^ dscale"
proof -
  have "x * 2 ^ dscale / 2 ^ ulp_shift x \<le> 2 ^ (53 + ulp_shift x) / 2 ^ ulp_shift x"
    using ulp_shift_upper[of x] by (intro divide_right_mono) simp_all
  also have "\<dots> = of_int (2 ^ 53)" by (simp add: power_add)
  finally have "rhe (x * 2 ^ dscale / 2 ^ ulp_shift x) \<le> 2 ^ 53" by (rule rhe_le_int)
  then have "real_of_int (rhe (x * 2 ^ dscale / 2 ^ ulp_shift x)) \<le> real_of_int (2 ^ 53)"
    by (simp only: of_int_le_iff)
  then have "real_of_int (rhe (x * 2 ^ dscale / 2 ^ ulp_shift x)) * 2 ^ ulp_shift x
               \<le> 2 ^ 53 * 2 ^ ulp_shift x"
    by (intro mult_right_mono) simp_all
  then show ?thesis
    unfolding round_mag_def by (intro divide_right_mono) (simp_all add: power_add)
qed

lemma round_mag_ge_bottom:
  assumes "0 < ulp_shift x"
  shows "2 ^ (52 + ulp_shift x) / 2 ^ dscale \<le> round_mag x"
proof -
  have "2 ^ (52 + ulp_shift x) / 2 ^ ulp_shift x \<le> x * 2 ^ dscale / 2 ^ ulp_shift x"
    using ulp_shift_lower[OF assms] by (intro divide_right_mono) simp_all
  moreover have "2 ^ (52 + ulp_shift x) / 2 ^ ulp_shift x = real_of_int (2 ^ 52)"
    by (simp add: power_add)
  ultimately have "2 ^ 52 \<le> rhe (x * 2 ^ dscale / 2 ^ ulp_shift x)"
    by (intro rhe_ge_int) simp
  then have "real_of_int (2 ^ 52) \<le> real_of_int (rhe (x * 2 ^ dscale / 2 ^ ulp_shift x))"
    by (simp only: of_int_le_iff)
  then have "2 ^ 52 * 2 ^ ulp_shift x
               \<le> real_of_int (rhe (x * 2 ^ dscale / 2 ^ ulp_shift x)) * 2 ^ ulp_shift x"
    by (intro mult_right_mono) simp_all
  then show ?thesis
    unfolding round_mag_def by (intro divide_right_mono) (simp_all add: power_add)
qed

lemma round_mag_mono:
  assumes "x \<le> y"
  shows "round_mag x \<le> round_mag y"
proof (cases "ulp_shift x = ulp_shift y")
  case True
  have "x * 2 ^ dscale / 2 ^ ulp_shift y \<le> y * 2 ^ dscale / 2 ^ ulp_shift y"
    using assms by (intro divide_right_mono mult_right_mono) simp_all
  then have "rhe (x * 2 ^ dscale / 2 ^ ulp_shift y) \<le> rhe (y * 2 ^ dscale / 2 ^ ulp_shift y)"
    by (rule rhe_mono)
  then have "real_of_int (rhe (x * 2 ^ dscale / 2 ^ ulp_shift y))
               \<le> real_of_int (rhe (y * 2 ^ dscale / 2 ^ ulp_shift y))"
    by (simp only: of_int_le_iff)
  then show ?thesis
    unfolding round_mag_def True
    by (intro divide_right_mono mult_right_mono) simp_all
next
  case False
  with ulp_shift_mono[OF assms] have lt: "ulp_shift x < ulp_shift y" by simp
  then have pos: "0 < ulp_shift y" by simp
  from lt have "53 + ulp_shift x \<le> 52 + ulp_shift y" by simp
  then have "(2::real) ^ (53 + ulp_shift x) \<le> 2 ^ (52 + ulp_shift y)"
    by (intro power_increasing) simp_all
  then have "(2::real) ^ (53 + ulp_shift x) / 2 ^ dscale \<le> 2 ^ (52 + ulp_shift y) / 2 ^ dscale"
    by (intro divide_right_mono) simp_all
  with round_mag_le_top[of x] round_mag_ge_bottom[OF pos] show ?thesis by linarith
qed

lemma round_mag_exact:
  assumes "0 \<le> m" and "m < 2 ^ 53"
  shows "round_mag (of_int m * 2 ^ j / 2 ^ dscale) = of_int m * 2 ^ j / 2 ^ dscale"
proof (cases "m = 0")
  case True
  have "ulp_shift 0 = 0" by (rule ulp_shift_eqI) simp_all
  with True show ?thesis by (simp add: round_mag_def rhe_def)
next
  case False
  with assms have mpos: "0 < m" by simp
  let ?x = "real_of_int m * 2 ^ j / 2 ^ dscale"
  have X: "?x * 2 ^ dscale = real_of_int (m * 2 ^ j)" by simp
  have bl: "bitlen \<lfloor>?x * 2 ^ dscale\<rfloor> = bitlen m + int j"
    unfolding X floor_of_int using mpos by simp
  from assms(2) have "bitlen m \<le> int 53" by (simp only: bitlen_le_nat)
  with bl have sj: "ulp_shift ?x \<le> j" by (simp add: ulp_shift_def)
  then obtain d where d: "j = ulp_shift ?x + d" using le_Suc_ex by blast
  have "?x * 2 ^ dscale / 2 ^ ulp_shift ?x = real_of_int (m * 2 ^ d)"
    unfolding X by (subst d) (simp add: power_add)
  then have "rhe (?x * 2 ^ dscale / 2 ^ ulp_shift ?x) = m * 2 ^ d" by (simp only: rhe_of_int)
  then have "round_mag ?x = real_of_int (m * 2 ^ d) * 2 ^ ulp_shift ?x / 2 ^ dscale"
    by (simp only: round_mag_def)
  also have "\<dots> = real_of_int m * 2 ^ (ulp_shift ?x + d) / 2 ^ dscale"
    by (simp add: power_add mult.commute)
  finally show ?thesis using d by simp
qed

subsection \<open>Rounding a real\<close>

lemma pow2_not_le_0 [simp]: "\<not> (2::real) ^ n \<le> 0"
  by (simp add: not_le)

lemma round_mag_0 [simp]: "round_mag 0 = 0"
  using round_mag_exact[of 0 0] by simp

lemma fl_0 [simp]: "fl 0 = Num 0"
  by (simp add: fl_def)

lemma fl_neg: "fl (- x) = js_neg (fl x)"
  by (cases "x = 0") (auto simp: fl_def Let_def)

lemma fl_not_NaN [simp]: "fl x \<noteq> NaN"
  by (simp add: fl_def Let_def)




lemma on_grid_neg: "on_grid a \<Longrightarrow> on_grid (- a)"
proof -
  assume "on_grid a"
  then obtain k :: int where "a = of_int k / 2 ^ dscale" unfolding on_grid_def by blast
  then have "- a = of_int (- k) / 2 ^ dscale" by simp
  then show ?thesis unfolding on_grid_def by blast
qed


lemma pow_dtop_gt: "k < 1024 \<Longrightarrow> (2::real) ^ k < 2 ^ dtop"
  unfolding dtop_def by (intro power_strict_increasing) simp_all





subsection \<open>Rounding a given rational\<close>

text \<open>
  With the exponent \<open>b\<close> (or \<open>a\<close>) of the binade given, the double nearest to a rational
  is computed by rounding one quotient to an integer.
  The lemmas named \<open>rounding_\<close> further down list, for one input each, the roundings
  that the evaluation of a function on that input meets.
\<close>

lemma round_mag_eval_small:
  assumes b: "b \<le> 1074" and lo: "2 ^ 52 \<le> x * 2 ^ b \<or> b = 1074" and hi: "x * 2 ^ b < 2 ^ 53"
  shows "round_mag x = of_int (rhe (x * 2 ^ b)) / 2 ^ b"
proof -
  define s where "s = 1074 - b"
  from b have d: "dscale = b + s" by (simp add: s_def dscale_def)
  have X: "x * 2 ^ dscale = x * 2 ^ b * 2 ^ s" by (simp add: d power_add)
  have "ulp_shift x = s"
  proof (rule ulp_shift_eqI)
    show "s = 0 \<or> 2 ^ (52 + s) \<le> x * 2 ^ dscale"
    proof (cases "b = 1074")
      case True
      then show ?thesis by (simp add: s_def)
    next
      case False
      with lo have "2 ^ 52 * 2 ^ s \<le> x * 2 ^ b * 2 ^ s"
        by (intro mult_right_mono) simp_all
      then show ?thesis unfolding X by (simp add: power_add)
    qed
    from hi have "x * 2 ^ b * 2 ^ s < 2 ^ 53 * 2 ^ s"
      by (intro mult_strict_right_mono) simp_all
    then show "x * 2 ^ dscale < 2 ^ (53 + s)" unfolding X by (simp add: power_add)
  qed
  then show ?thesis unfolding round_mag_def X by (simp add: d power_add)
qed

lemma round_mag_eval_big:
  assumes lo: "2 ^ 52 * 2 ^ a \<le> x" and hi: "x < 2 ^ 53 * 2 ^ a"
  shows "round_mag x = of_int (rhe (x / 2 ^ a)) * 2 ^ a"
proof -
  define s where "s = dscale + a"
  have "ulp_shift x = s"
  proof (rule ulp_shift_eqI)
    from lo have "2 ^ 52 * 2 ^ a * 2 ^ dscale \<le> x * 2 ^ dscale"
      by (intro mult_right_mono) simp_all
    then show "s = 0 \<or> 2 ^ (52 + s) \<le> x * 2 ^ dscale"
      by (simp add: s_def power_add mult.commute mult.left_commute)
    from hi have "x * 2 ^ dscale < 2 ^ 53 * 2 ^ a * 2 ^ dscale"
      by (intro mult_strict_right_mono) simp_all
    then show "x * 2 ^ dscale < 2 ^ (53 + s)"
      by (simp add: s_def power_add mult.commute mult.left_commute)
  qed
  then show ?thesis unfolding round_mag_def by (simp add: s_def power_add)
qed

lemma fl_pos_small:
  assumes "b \<le> 1074" and "0 < x" and "2 ^ 52 \<le> x * 2 ^ b \<or> b = 1074"
    and "x * 2 ^ b < 2 ^ 53" and "of_int (rhe (x * 2 ^ b)) / 2 ^ b = r"
  shows "fl x = Num r"
proof -
  from assms(2) have ax: "\<bar>x\<bar> = x" by simp
  have m: "round_mag x = r" using round_mag_eval_small[OF assms(1,3,4)] assms(5) by simp
  have "rhe (x * 2 ^ b) \<le> 2 ^ 53" using assms(4) by (intro rhe_le_int) simp
  then have "real_of_int (rhe (x * 2 ^ b)) \<le> real_of_int (2 ^ 53)" by (simp only: of_int_le_iff)
  then have "real_of_int (rhe (x * 2 ^ b)) / 2 ^ b \<le> 2 ^ 53 / 2 ^ b"
    by (intro divide_right_mono) simp_all
  also have "\<dots> \<le> (2::real) ^ 53 / 1" by (intro divide_left_mono) simp_all
  also have "\<dots> = 2 ^ 53" by simp
  also have "\<dots> < 2 ^ dtop" by (rule pow_dtop_gt) simp
  finally have "\<not> 2 ^ dtop \<le> r" using assms(5) by simp
  with m ax assms(2) show ?thesis by (simp add: fl_def Let_def)
qed

lemma fl_neg_small:
  assumes "b \<le> 1074" and "x < 0" and "2 ^ 52 \<le> - x * 2 ^ b \<or> b = 1074"
    and "- x * 2 ^ b < 2 ^ 53" and "of_int (rhe (- x * 2 ^ b)) / 2 ^ b = r"
  shows "fl x = Num (- r)"
proof -
  from assms(2) have "0 < - x" by simp
  from fl_pos_small[OF assms(1) this assms(3,4,5)] have "fl (- x) = Num r" .
  then have "js_neg (fl x) = Num r" by (simp only: fl_neg)
  then show ?thesis by (cases "fl x") simp_all
qed

lemma fl_pos_big:
  assumes "a \<le> 970" and "2 ^ 52 * 2 ^ a \<le> x" and "x < 2 ^ 53 * 2 ^ a"
    and "of_int (rhe (x / 2 ^ a)) * 2 ^ a = r"
  shows "fl x = Num r"
proof -
  have "(0::real) < 2 ^ 52 * 2 ^ a" by simp
  with assms(2) have xpos: "0 < x" by linarith
  then have ax: "\<bar>x\<bar> = x" by simp
  have m: "round_mag x = r" using round_mag_eval_big[OF assms(2,3)] assms(4) by simp
  have "x / 2 ^ a < 2 ^ 53" using assms(3) by (simp add: divide_less_eq)
  then have "rhe (x / 2 ^ a) \<le> 2 ^ 53" by (intro rhe_le_int) simp
  then have "real_of_int (rhe (x / 2 ^ a)) \<le> real_of_int (2 ^ 53)" by (simp only: of_int_le_iff)
  then have "real_of_int (rhe (x / 2 ^ a)) * 2 ^ a \<le> 2 ^ 53 * 2 ^ a"
    by (intro mult_right_mono) simp_all
  also have "\<dots> = (2::real) ^ (53 + a)" by (simp add: power_add)
  also have "\<dots> < 2 ^ dtop" using assms(1) by (intro pow_dtop_gt) simp
  finally have "\<not> 2 ^ dtop \<le> r" using assms(4) by simp
  with m ax xpos show ?thesis by (simp add: fl_def Let_def)
qed

lemma fl_neg_big:
  assumes "a \<le> 970" and "2 ^ 52 * 2 ^ a \<le> - x" and "- x < 2 ^ 53 * 2 ^ a"
    and "of_int (rhe (- x / 2 ^ a)) * 2 ^ a = r"
  shows "fl x = Num (- r)"
proof -
  from fl_pos_big[OF assms] have "fl (- x) = Num r" .
  then have "js_neg (fl x) = Num r" by (simp only: fl_neg)
  then show ?thesis by (cases "fl x") simp_all
qed

subsection \<open>The rounded operators\<close>

lemma fp_add_Num [simp]: "fp_add (Num a) (Num b) = fl (a + b)"
  by (simp add: fp_add_def)

lemma fp_sub_Num [simp]: "fp_sub (Num a) (Num b) = fl (a - b)"
  by (simp add: fp_sub_def)

lemma fp_mul_Num [simp]: "fp_mul (Num a) (Num b) = fl (a * b)"
  by (simp add: fp_mul_def)

lemma fp_div_Num [simp]: "b \<noteq> 0 \<Longrightarrow> fp_div (Num a) (Num b) = fl (a / b)"
  by (simp add: fp_div_def)

lemma fp_pow_Num [simp]: "fp_pow (Num a) n = fl (a ^ n)"
  by (simp add: fp_pow_def)

lemma fp_add_NegInfinity [simp]: "fp_add NegInfinity (Num b) = NegInfinity"
  by (simp add: fp_add_def)











section \<open>The payback period\<close>

subsection \<open>The loop and the crossing year\<close>














lemma rounding_payback_part002:
  "fl (3 / 10) = Num (5404319552844595 / 18014398509481984)"
  "fl (7 / 10) = Num (3152519739159347 / 4503599627370496)"
  "fl (23418718062326579 / 18014398509481984) = Num (5854679515581645 / 4503599627370496)"
  "fl (7656119366529843 / 4503599627370496) = Num (7656119366529843 / 4503599627370496)"
  "fl (30) = Num 30"
  "fl (- 70) = Num (- 70)"
proof -
  show "fl (3 / 10) = Num (5404319552844595 / 18014398509481984)"
    by (rule fl_pos_small[where b=54]) (simp_all add: rhe_def)
  show "fl (7 / 10) = Num (3152519739159347 / 4503599627370496)"
    by (rule fl_pos_small[where b=53]) (simp_all add: rhe_def)
  show "fl (23418718062326579 / 18014398509481984) = Num (5854679515581645 / 4503599627370496)"
    by (rule fl_pos_small[where b=52]) (simp_all add: rhe_def)
  show "fl (7656119366529843 / 4503599627370496) = Num (7656119366529843 / 4503599627370496)"
    by (rule fl_pos_small[where b=52]) (simp_all add: rhe_def)
  show "fl (30) = Num 30"
    by (rule fl_pos_small[where b=48]) (simp_all add: rhe_def)
  show "fl (- 70) = Num (- 70)"
    by (rule fl_neg_small[where b=46]) (simp_all add: rhe_def)
qed

text \<open>
  The older copy of the calculator divides the cumulative after the flow by the flow:
  for the cash flows 30, 100 and an investment of 100 it returns \<open>1.3\<close>, where the
  current file returns \<open>1.7\<close>.
\<close>

lemma payback_part002_differs:
  "calculatePaybackPeriod_part002 [Num 30, Num 100] (Num 100) = Some (Num (5854679515581645 / 4503599627370496))
   \<and> calculatePaybackPeriod [Num 30, Num 100] (Num 100) = Some (Num (7656119366529843 / 4503599627370496))"
  by (simp add: calculatePaybackPeriod_part002_def calculatePaybackPeriod_def
        rounding_payback_part002)

lemma rounding_payback_large:
  "fl (1) = Num 1"
  "fl (3) = Num 3"
  "fl (- 9007199254740991) = Num (- 9007199254740991)"
  "fl (- 9007199254740993) = Num (- 9007199254740992)"
proof -
  show "fl (1) = Num 1"
    by (rule fl_pos_small[where b=52]) (simp_all add: rhe_def)
  show "fl (3) = Num 3"
    by (rule fl_pos_small[where b=51]) (simp_all add: rhe_def)
  show "fl (- 9007199254740991) = Num (- 9007199254740991)"
    by (rule fl_neg_small[where b=0]) (simp_all add: rhe_def)
  show "fl (- 9007199254740993) = Num (- 9007199254740992)"
    by (rule fl_neg_big[where a=1]) (simp_all add: rhe_def)
qed

text \<open>
  The crossing is that of the rounded cumulative: with an investment of \<open>2^53 + 2\<close> and
  the cash flows 1, 1 and \<open>2^53 - 1\<close> the exact sum ends at -1, while the cumulative of
  the loop reaches 0 at the last flow and the code returns 3.
\<close>

lemma payback_rounded_crossing:
  "- (9007199254740994 :: real) + 1 + 1 + 9007199254740991 = - 1
   \<and> calculatePaybackPeriod [Num 1, Num 1, Num 9007199254740991] (Num 9007199254740994)
       = Some (Num 3)"
  by (simp add: calculatePaybackPeriod_def rounding_payback_large)






subsection \<open>Raising a cash flow\<close>















section \<open>The IRR solver\<close>

subsection \<open>The loop against the Newton sequence\<close>

lemma irr_loop_step:
  "irr_loop cfs (Suc n) (newton_guess cfs k) =
     (if npv_within_tolerance cfs k then NpvConverged (newton_guess cfs k)
      else if derivative_is_zero cfs k then ZeroDerivative
      else if step_within_tolerance cfs k then StepConverged (newton_guess cfs (Suc k))
      else irr_loop cfs n (newton_guess cfs (Suc k)))"
  by (simp add: npv_within_tolerance_def derivative_is_zero_def step_within_tolerance_def
        Let_def)

lemma irr_loop_continue:
  "(\<forall>j<m. iteration_continues cfs (k + j)) \<Longrightarrow>
   irr_loop cfs (m + n) (newton_guess cfs k) = irr_loop cfs n (newton_guess cfs (k + m))"
proof (induction m arbitrary: k)
  case 0
  then show ?case by simp
next
  case (Suc m)
  from Suc.prems have c0: "iteration_continues cfs k" by force
  have "\<forall>j<m. iteration_continues cfs (Suc k + j)"
  proof (intro allI impI)
    fix j assume "j < m"
    then have "Suc j < Suc m" by simp
    from Suc.prems[rule_format, OF this] show "iteration_continues cfs (Suc k + j)"
      by simp
  qed
  from Suc.IH[OF this] have "irr_loop cfs (m + n) (newton_guess cfs (Suc k))
      = irr_loop cfs n (newton_guess cfs (Suc k + m))" .
  moreover have "irr_loop cfs (Suc m + n) (newton_guess cfs k)
      = irr_loop cfs (m + n) (newton_guess cfs (Suc k))"
    using c0 irr_loop_step[of cfs "m + n" k] by (simp add: iteration_continues_def)
  ultimately show ?case by simp
qed

lemma irr_run_exhausted:
  assumes "\<forall>k<100. iteration_continues cfs k"
  shows "irr_run cfs = IterationsExhausted"
proof -
  have "irr_loop cfs (100 + 0) (newton_guess cfs 0)
          = irr_loop cfs 0 (newton_guess cfs (0 + 100))"
    by (rule irr_loop_continue) (use assms in simp)
  then show ?thesis by (simp add: irr_run_def)
qed

lemma irr_run_first_exit:
  assumes k: "k < 100" and before: "\<forall>j<k. iteration_continues cfs j"
  shows "irr_run cfs =
     (if npv_within_tolerance cfs k then NpvConverged (newton_guess cfs k)
      else if derivative_is_zero cfs k then ZeroDerivative
      else if step_within_tolerance cfs k then StepConverged (newton_guess cfs (Suc k))
      else irr_loop cfs (99 - k) (newton_guess cfs (Suc k)))"
proof -
  from k have split: "k + Suc (99 - k) = 100" by simp
  have start: "irr_run cfs = irr_loop cfs (k + Suc (99 - k)) (newton_guess cfs 0)"
    by (simp only: irr_run_def split newton_guess.simps)
  have "irr_loop cfs (k + Suc (99 - k)) (newton_guess cfs 0)
          = irr_loop cfs (Suc (99 - k)) (newton_guess cfs (0 + k))"
    by (rule irr_loop_continue) (use before in simp)
  with start have "irr_run cfs = irr_loop cfs (Suc (99 - k)) (newton_guess cfs k)"
    by (simp only: add_0)
  then show ?thesis by (simp only: irr_loop_step)
qed

lemma exits_at_unique: "exits_at cfs k \<Longrightarrow> exits_at cfs k' \<Longrightarrow> k = k'"
  unfolding exits_at_def by (meson linorder_neqE_nat)

lemma exit_exists:
  "(\<forall>k<100. iteration_continues cfs k) \<or> (\<exists>k. exits_at cfs k)"
proof (cases "\<forall>k<100. iteration_continues cfs k")
  case True
  then show ?thesis by simp
next
  case False
  then obtain k0 where k0: "k0 < 100 \<and> \<not> iteration_continues cfs k0" by blast
  define k where "k = (LEAST k. k < 100 \<and> \<not> iteration_continues cfs k)"
  have 1: "k < 100 \<and> \<not> iteration_continues cfs k"
    unfolding k_def by (rule LeastI[of _ k0]) (rule k0)
  have 2: "\<forall>j<k. iteration_continues cfs j"
  proof (intro allI impI)
    fix j assume jk: "j < k"
    show "iteration_continues cfs j"
    proof (rule ccontr)
      assume "\<not> iteration_continues cfs j"
      with jk 1 have "j < 100 \<and> \<not> iteration_continues cfs j" by simp
      then have "k \<le> j" unfolding k_def by (rule Least_le)
      with jk show False by simp
    qed
  qed
  from 1 2 have "exits_at cfs k" by (simp add: exits_at_def)
  then show ?thesis by blast
qed

text \<open>
  Claim C4: the IRR solver is total (no operation of it throws) and returns \<open>null\<close>
  exactly when a Newton step meets a derivative equal to zero, or the 100 iterations
  are used up without the tolerance being met (\<open>|NPV| < 1e-6\<close> or a step below
  \<open>1e-6\<close>); otherwise it returns the converged rate: the guess whose NPV passed the
  test, or the next guess when the step passed it.
\<close>

theorem calculateIRR_null_iff:
  "(calculateIRR cfs = None \<longleftrightarrow>
      (\<exists>k<100. (\<forall>j<k. iteration_continues cfs j)
               \<and> \<not> npv_within_tolerance cfs k \<and> derivative_is_zero cfs k)
      \<or> (\<forall>k<100. iteration_continues cfs k))
   \<and> (calculateIRR cfs = Some r \<longleftrightarrow>
      (\<exists>k<100. (\<forall>j<k. iteration_continues cfs j)
               \<and> (npv_within_tolerance cfs k \<and> r = newton_guess cfs k
                  \<or> \<not> npv_within_tolerance cfs k \<and> \<not> derivative_is_zero cfs k
                    \<and> step_within_tolerance cfs k \<and> r = newton_guess cfs (Suc k))))"
  (is "(_ \<longleftrightarrow> ?N \<or> ?A) \<and> (_ \<longleftrightarrow> ?S)")
proof -
  from exit_exists[of cfs] show ?thesis
  proof
    assume all: ?A
    then have res: "calculateIRR cfs = None"
      by (simp add: calculateIRR_def irr_run_exhausted)
    have "\<not> ?S"
    proof
      assume ?S
      then obtain k where "k < 100"
        "npv_within_tolerance cfs k \<or> step_within_tolerance cfs k" by blast
      with all show False unfolding iteration_continues_def by blast
    qed
    with res all show ?thesis by simp
  next
    assume "\<exists>k. exits_at cfs k"
    then obtain k where ex: "exits_at cfs k" by blast
    then have k: "k < 100" and before: "\<forall>j<k. iteration_continues cfs j"
      and stop: "\<not> iteration_continues cfs k" by (simp_all add: exits_at_def)
    have uniq: "k' = k" if "k' < 100" "\<forall>j<k'. iteration_continues cfs j"
                  "\<not> iteration_continues cfs k'" for k'
      using exits_at_unique[OF _ ex, of k'] that by (simp add: exits_at_def)
    have notall: "\<not> ?A" using k stop by blast
    have N_iff: "?N \<longleftrightarrow> \<not> npv_within_tolerance cfs k \<and> derivative_is_zero cfs k"
    proof
      assume ?N
      then obtain k' where k': "k' < 100" "\<forall>j<k'. iteration_continues cfs j"
        "\<not> npv_within_tolerance cfs k'" "derivative_is_zero cfs k'" by blast
      then have "\<not> iteration_continues cfs k'" by (simp add: iteration_continues_def)
      from uniq[OF k'(1,2) this] k'(3,4)
      show "\<not> npv_within_tolerance cfs k \<and> derivative_is_zero cfs k" by simp
    next
      assume "\<not> npv_within_tolerance cfs k \<and> derivative_is_zero cfs k"
      with k before show ?N by blast
    qed
    have S_iff: "?S \<longleftrightarrow>
        (npv_within_tolerance cfs k \<and> r = newton_guess cfs k
         \<or> \<not> npv_within_tolerance cfs k \<and> \<not> derivative_is_zero cfs k
           \<and> step_within_tolerance cfs k \<and> r = newton_guess cfs (Suc k))"
      (is "_ \<longleftrightarrow> ?Sk")
    proof
      assume ?S
      then obtain k' where k': "k' < 100" "\<forall>j<k'. iteration_continues cfs j"
        and d: "npv_within_tolerance cfs k' \<and> r = newton_guess cfs k'
                  \<or> \<not> npv_within_tolerance cfs k' \<and> \<not> derivative_is_zero cfs k'
                    \<and> step_within_tolerance cfs k' \<and> r = newton_guess cfs (Suc k')"
        by blast
      from d have "\<not> iteration_continues cfs k'" unfolding iteration_continues_def by blast
      from uniq[OF k' this] d show ?Sk by simp
    next
      assume ?Sk
      with k before show ?S by blast
    qed
    have res: "calculateIRR cfs =
       (if npv_within_tolerance cfs k then Some (newton_guess cfs k)
        else if derivative_is_zero cfs k then None
        else Some (newton_guess cfs (Suc k)))"
    proof -
      from stop have "npv_within_tolerance cfs k \<or> derivative_is_zero cfs k
                        \<or> step_within_tolerance cfs k"
        by (simp add: iteration_continues_def)
      then show ?thesis
        unfolding calculateIRR_def irr_run_first_exit[OF k before]
        by (auto simp del: newton_guess.simps)
    qed
    have "(calculateIRR cfs = None)
            = (\<not> npv_within_tolerance cfs k \<and> derivative_is_zero cfs k)"
      unfolding res by simp
    moreover have "(calculateIRR cfs = Some r) =
        (npv_within_tolerance cfs k \<and> r = newton_guess cfs k
         \<or> \<not> npv_within_tolerance cfs k \<and> \<not> derivative_is_zero cfs k
           \<and> step_within_tolerance cfs k \<and> r = newton_guess cfs (Suc k))"
      unfolding res using stop unfolding iteration_continues_def by auto
    moreover from notall have "?A = False" by simp
    ultimately show ?thesis unfolding N_iff S_iff by (simp only: simp_thms)
  qed
qed

lemma rounding_irr_balanced:
  "fl (- (1 / 35184372088832)) = Num (- (1 / 35184372088832))"
  "fl (1 / 1000000) = Num (4722366482869645 / 4722366482869645213696)"
  "fl (1 / 10) = Num (3602879701896397 / 36028797018963968)"
  "fl (39631676720860365 / 36028797018963968) = Num (2476979795053773 / 2251799813685248)"
  "fl (2476979795053773 / 2251799813685248) = Num (2476979795053773 / 2251799813685248)"
  "fl (6135428905104631294035961535529 / 5070602400912917605986812821504) = Num (5449355549118301 / 4503599627370496)"
  "fl (990791918021509120 / 5449355549118301) = Num (6397158561605817 / 35184372088832)"
  "fl (- (450359962737049600 / 2476979795053773)) = Num (- (3198579280802909 / 17592186044416))"
  "fl (- (3198579280802909 / 17592186044416)) = Num (- (3198579280802909 / 17592186044416))"
proof -
  show "fl (- (1 / 35184372088832)) = Num (- (1 / 35184372088832))"
    by (rule fl_neg_small[where b=97]) (simp_all add: rhe_def)
  show "fl (1 / 1000000) = Num (4722366482869645 / 4722366482869645213696)"
    by (rule fl_pos_small[where b=72]) (simp_all add: rhe_def)
  show "fl (1 / 10) = Num (3602879701896397 / 36028797018963968)"
    by (rule fl_pos_small[where b=56]) (simp_all add: rhe_def)
  show "fl (39631676720860365 / 36028797018963968) = Num (2476979795053773 / 2251799813685248)"
    by (rule fl_pos_small[where b=52]) (simp_all add: rhe_def)
  show "fl (2476979795053773 / 2251799813685248) = Num (2476979795053773 / 2251799813685248)"
    by (rule fl_pos_small[where b=52]) (simp_all add: rhe_def)
  show "fl (6135428905104631294035961535529 / 5070602400912917605986812821504) = Num (5449355549118301 / 4503599627370496)"
    by (rule fl_pos_small[where b=52]) (simp_all add: rhe_def)
  show "fl (990791918021509120 / 5449355549118301) = Num (6397158561605817 / 35184372088832)"
    by (rule fl_pos_small[where b=45]) (simp_all add: rhe_def)
  show "fl (- (450359962737049600 / 2476979795053773)) = Num (- (3198579280802909 / 17592186044416))"
    by (rule fl_neg_small[where b=45]) (simp_all add: rhe_def)
  show "fl (- (3198579280802909 / 17592186044416)) = Num (- (3198579280802909 / 17592186044416))"
    by (rule fl_neg_small[where b=45]) (simp_all add: rhe_def)
qed

lemma irr_balanced_iterations:
  "irr_loop [Num (- 200), Num 220] (Suc n) (Num (3602879701896397 / 36028797018963968)) = NpvConverged (Num (3602879701896397 / 36028797018963968))"
  by (simp_all only: irr_loop.simps)
     (simp_all add: calculateNPV_def derivativeNpv_def reduce_def epsilon_def
        rounding_irr_balanced split del: if_split)

lemma irr_balanced_run:
  "irr_run [Num (- 200), Num 220] = NpvConverged (Num (3602879701896397 / 36028797018963968))"
proof -
  have e: "(100::nat) = Suc (99)" by simp
  show ?thesis
    unfolding irr_run_def e rounding_irr_balanced irr_balanced_iterations by (rule refl)
qed

lemma rounding_irr_single:
  "fl (1 / 1000000) = Num (4722366482869645 / 4722366482869645213696)"
  "fl (1 / 10) = Num (3602879701896397 / 36028797018963968)"
  "fl (2251799813685248 / 2476979795053773) = Num (8188362958855447 / 9007199254740992)"
  "fl (8188362958855447 / 9007199254740992) = Num (8188362958855447 / 9007199254740992)"
  "fl (39631676720860365 / 36028797018963968) = Num (2476979795053773 / 2251799813685248)"
  "fl (2476979795053773 / 2251799813685248) = Num (2476979795053773 / 2251799813685248)"
proof -
  show "fl (1 / 1000000) = Num (4722366482869645 / 4722366482869645213696)"
    by (rule fl_pos_small[where b=72]) (simp_all add: rhe_def)
  show "fl (1 / 10) = Num (3602879701896397 / 36028797018963968)"
    by (rule fl_pos_small[where b=56]) (simp_all add: rhe_def)
  show "fl (2251799813685248 / 2476979795053773) = Num (8188362958855447 / 9007199254740992)"
    by (rule fl_pos_small[where b=53]) (simp_all add: rhe_def)
  show "fl (8188362958855447 / 9007199254740992) = Num (8188362958855447 / 9007199254740992)"
    by (rule fl_pos_small[where b=53]) (simp_all add: rhe_def)
  show "fl (39631676720860365 / 36028797018963968) = Num (2476979795053773 / 2251799813685248)"
    by (rule fl_pos_small[where b=52]) (simp_all add: rhe_def)
  show "fl (2476979795053773 / 2251799813685248) = Num (2476979795053773 / 2251799813685248)"
    by (rule fl_pos_small[where b=52]) (simp_all add: rhe_def)
qed

lemma irr_single_iterations:
  "irr_loop [Num 1] (Suc n) (Num (3602879701896397 / 36028797018963968)) = ZeroDerivative"
  by (simp_all only: irr_loop.simps)
     (simp_all add: calculateNPV_def derivativeNpv_def reduce_def epsilon_def
        rounding_irr_single split del: if_split)

lemma irr_single_run:
  "irr_run [Num 1] = ZeroDerivative"
proof -
  have e: "(100::nat) = Suc (99)" by simp
  show ?thesis
    unfolding irr_run_def e rounding_irr_single irr_single_iterations by (rule refl)
qed

theorem calculateIRR_null_iff_witness:
  "calculateIRR [Num (- 200), Num 220] = Some (Num (3602879701896397 / 36028797018963968)) \<and> calculateIRR [Num 1] = None"
proof -
  have a: "\<exists>k<100. (\<forall>j<k. iteration_continues [Num (- 200), Num 220] j)
               \<and> (npv_within_tolerance [Num (- 200), Num 220] k
                    \<and> Num (3602879701896397 / 36028797018963968) = newton_guess [Num (- 200), Num 220] k
                  \<or> \<not> npv_within_tolerance [Num (- 200), Num 220] k
                    \<and> \<not> derivative_is_zero [Num (- 200), Num 220] k
                    \<and> step_within_tolerance [Num (- 200), Num 220] k
                    \<and> Num (3602879701896397 / 36028797018963968) = newton_guess [Num (- 200), Num 220] (Suc k))"
    by (rule exI[of _ 0])
       (simp add: npv_within_tolerance_def calculateNPV_def reduce_def epsilon_def
          rounding_irr_balanced split del: if_split)
  have b: "\<exists>k<100. (\<forall>j<k. iteration_continues [Num 1] j)
               \<and> \<not> npv_within_tolerance [Num 1] k \<and> derivative_is_zero [Num 1] k"
    by (rule exI[of _ 0])
       (simp add: npv_within_tolerance_def derivative_is_zero_def calculateNPV_def
          derivativeNpv_def reduce_def epsilon_def rounding_irr_single split del: if_split)
  from a b calculateIRR_null_iff[of "[Num (- 200), Num 220]" "Num (3602879701896397 / 36028797018963968)"]
       calculateIRR_null_iff[of "[Num 1]" NaN]
  show ?thesis by blast
qed

subsection \<open>The NPV at the returned rate\<close>












lemma rounding_irr_cancellation:
  "fl (1 / 1000000) = Num (4722366482869645 / 4722366482869645213696)"
  "fl (- (1 / 2048)) = Num (- (1 / 2048))"
  "fl (1 / 10) = Num (3602879701896397 / 36028797018963968)"
  "fl (39631676720860365 / 36028797018963968) = Num (2476979795053773 / 2251799813685248)"
  "fl (2476979795053773 / 2251799813685248) = Num (2476979795053773 / 2251799813685248)"
  "fl (6135428905104631294035961535529 / 5070602400912917605986812821504) = Num (5449355549118301 / 4503599627370496)"
  "fl (16654990996590990755551510528 / 5449355549118301) = Num (782418701935709 / 256)"
  "fl (- (782418701935709 / 256)) = Num (- (782418701935709 / 256))"
  "fl (- (7570450452995904888887050240 / 2476979795053773)) = Num (- (782418701935709 / 256))"
  "fl (8327495498295495377775755264 / 2476979795053773) = Num (6885284577034239 / 2048)"
proof -
  show "fl (1 / 1000000) = Num (4722366482869645 / 4722366482869645213696)"
    by (rule fl_pos_small[where b=72]) (simp_all add: rhe_def)
  show "fl (- (1 / 2048)) = Num (- (1 / 2048))"
    by (rule fl_neg_small[where b=63]) (simp_all add: rhe_def)
  show "fl (1 / 10) = Num (3602879701896397 / 36028797018963968)"
    by (rule fl_pos_small[where b=56]) (simp_all add: rhe_def)
  show "fl (39631676720860365 / 36028797018963968) = Num (2476979795053773 / 2251799813685248)"
    by (rule fl_pos_small[where b=52]) (simp_all add: rhe_def)
  show "fl (2476979795053773 / 2251799813685248) = Num (2476979795053773 / 2251799813685248)"
    by (rule fl_pos_small[where b=52]) (simp_all add: rhe_def)
  show "fl (6135428905104631294035961535529 / 5070602400912917605986812821504) = Num (5449355549118301 / 4503599627370496)"
    by (rule fl_pos_small[where b=52]) (simp_all add: rhe_def)
  show "fl (16654990996590990755551510528 / 5449355549118301) = Num (782418701935709 / 256)"
    by (rule fl_pos_small[where b=11]) (simp_all add: rhe_def)
  show "fl (- (782418701935709 / 256)) = Num (- (782418701935709 / 256))"
    by (rule fl_neg_small[where b=11]) (simp_all add: rhe_def)
  show "fl (- (7570450452995904888887050240 / 2476979795053773)) = Num (- (782418701935709 / 256))"
    by (rule fl_neg_small[where b=11]) (simp_all add: rhe_def)
  show "fl (8327495498295495377775755264 / 2476979795053773) = Num (6885284577034239 / 2048)"
    by (rule fl_pos_small[where b=11]) (simp_all add: rhe_def)
qed

lemma irr_cancellation_iterations:
  "irr_loop [Num (- 3361955359880), Num 3698150895868] (Suc n) (Num (3602879701896397 / 36028797018963968)) = NpvConverged (Num (3602879701896397 / 36028797018963968))"
  by (simp_all only: irr_loop.simps)
     (simp_all add: calculateNPV_def derivativeNpv_def reduce_def epsilon_def
        rounding_irr_cancellation split del: if_split)

lemma irr_cancellation_run:
  "irr_run [Num (- 3361955359880), Num 3698150895868] = NpvConverged (Num (3602879701896397 / 36028797018963968))"
proof -
  have e: "(100::nat) = Suc (99)" by simp
  show ?thesis
    unfolding irr_run_def e rounding_irr_cancellation irr_cancellation_iterations by (rule refl)
qed

text \<open>
  The rate returned from the NPV test is tested on the prepended sequence only: with an
  investment of 3361955359880 and the single cash flow 3698150895868 the solver leaves at
  the first guess, and the NPV of the cash flow at that rate with that investment is
  \<open>-1/2048\<close>, about \<open>-0.00049\<close>.
\<close>

lemma npv_at_irr_npv_exit_rounding:
  "irr_run (Num (- 3361955359880) # [Num 3698150895868]) = NpvConverged (Num (3602879701896397 / 36028797018963968))
   \<and> calculateNPV [Num 3698150895868] (Num (3602879701896397 / 36028797018963968)) (Num 3361955359880) = Num (- (1 / 2048))
   \<and> \<not> js_le (js_abs (Num (- (1 / 2048)))) (Num 0.0001)"
proof -
  have "calculateNPV [Num 3698150895868] (Num (3602879701896397 / 36028797018963968)) (Num 3361955359880) = Num (- (1 / 2048))"
    by (simp add: calculateNPV_def reduce_def rounding_irr_cancellation)
  moreover have "\<not> js_le (js_abs (Num (- (1 / 2048)))) (Num 0.0001)"
    by (simp add: js_le_def)
  ultimately show ?thesis using irr_cancellation_run by (intro conjI)
qed

lemma fl_overflow:
  "2 ^ dtop \<le> x \<Longrightarrow> fl x = Infinity"
  "x \<le> - (2 ^ dtop) \<Longrightarrow> fl x = NegInfinity"
proof -
  have "round_mag (of_int (2 ^ 52) * 2 ^ (dtop + dscale - 52) / 2 ^ dscale)
          = of_int (2 ^ 52) * 2 ^ (dtop + dscale - 52) / 2 ^ dscale"
    by (rule round_mag_exact) simp_all
  moreover have "of_int (2 ^ 52) * 2 ^ (dtop + dscale - 52) / 2 ^ dscale = (2::real) ^ dtop"
    by (simp add: dtop_def dscale_def flip: power_add)
  ultimately have top: "round_mag (2 ^ dtop) = 2 ^ dtop" by simp
  {
    fix y :: real assume y: "2 ^ dtop \<le> y"
    from round_mag_mono[OF this] have "2 ^ dtop \<le> round_mag y" by (simp only: top)
  } note big = this
  show "fl x = Infinity" if "2 ^ dtop \<le> x"
  proof -
    have "(0::real) < 2 ^ dtop" by simp
    with that have "0 < x" by linarith
    with big[OF that] show ?thesis by (simp add: fl_def Let_def abs_if)
  qed
  show "fl x = NegInfinity" if "x \<le> - (2 ^ dtop)"
  proof -
    have "(0::real) < 2 ^ dtop" by simp
    with that have neg: "x < 0" by linarith
    from that have "2 ^ dtop \<le> - x" by simp
    from big[OF this] neg show ?thesis by (simp add: fl_def Let_def abs_if)
  qed
qed

lemma rounding_irr_overflow:
  "fl (- (4985171243851603 / 6032057205060440848842124543157735677050252251748505781796615064961622344493727293370973578138265743708225425014400837164813540499979063179105919597766951022193355091707896034850684039059079180396788349106095584290087446076413771468940477241550670753145517602931224392424029547429993824129889235158145614364972941312)) = Num (- (4985171243851603 / 6032057205060440848842124543157735677050252251748505781796615064961622344493727293370973578138265743708225425014400837164813540499979063179105919597766951022193355091707896034850684039059079180396788349106095584290087446076413771468940477241550670753145517602931224392424029547429993824129889235158145614364972941312))"
  "fl (6032057205060441 / 7298789218123134552183008242801547165077106737617593085448956519413850852775317813847481710730230167745250520748076046943830947435778832893220712690227756515234605004316908615298944043805739277492947433967345554176194935822340536753521810539146905323688190637638387544808705909477220131542298298066916811288212406272) = Num (4985171243851603 / 6032057205060440848842124543157735677050252251748505781796615064961622344493727293370973578138265743708225425014400837164813540499979063179105919597766951022193355091707896034850684039059079180396788349106095584290087446076413771468940477241550670753145517602931224392424029547429993824129889235158145614364972941312)"
  "fl (1 / 1000000000000000000000000000000000000000000000000000000000000000000000000000000000000000000000000000000000000000000000000000000000000000000000000000000000000000000000000000000000000000000000000000000000000000000000000000000000000000000000000000000000000000000000000000000000000000000000000000000000000) = Num (6032057205060441 / 6032057205060440848842124543157735677050252251748505781796615064961622344493727293370973578138265743708225425014400837164813540499979063179105919597766951022193355091707896034850684039059079180396788349106095584290087446076413771468940477241550670753145517602931224392424029547429993824129889235158145614364972941312)"
  "fl (6032057205060441 / 6032057205060440848842124543157735677050252251748505781796615064961622344493727293370973578138265743708225425014400837164813540499979063179105919597766951022193355091707896034850684039059079180396788349106095584290087446076413771468940477241550670753145517602931224392424029547429993824129889235158145614364972941312) = Num (6032057205060441 / 6032057205060440848842124543157735677050252251748505781796615064961622344493727293370973578138265743708225425014400837164813540499979063179105919597766951022193355091707896034850684039059079180396788349106095584290087446076413771468940477241550670753145517602931224392424029547429993824129889235158145614364972941312)"
  "fl (1 / 1000000) = Num (4722366482869645 / 4722366482869645213696)"
  "fl (1 / 10) = Num (3602879701896397 / 36028797018963968)"
  "fl (39631676720860365 / 36028797018963968) = Num (2476979795053773 / 2251799813685248)"
  "fl (2476979795053773 / 2251799813685248) = Num (2476979795053773 / 2251799813685248)"
  "fl (6135428905104631294035961535529 / 5070602400912917605986812821504) = Num (5449355549118301 / 4503599627370496)"
  "fl (4766254545454545 / 524288) = Num (4766254545454545 / 524288)"
  "fl (54836883682367638850730194429242229124296283629641736582218016394759264268340614442058281823047124718555436302820777905276810226468366533372533267196670536773468882230824527509031137086268420874815323864714494564002018176403593738062348124960631363969305126111673322451839957788671267784533656654755031262653029408030178041683 / 6032057205060440848842124543157735677050252251748505781796615064961622344493727293370973578138265743708225425014400837164813540499979063179105919597766951022193355091707896034850684039059079180396788349106095584290087446076413771468940477241550670753145517602931224392424029547429993824129889235158145614364972941312) = Num (4766254545454545 / 524288)"
  "fl (22517998136852480000000000 / 2476979795053773) = Num (4766254545454545 / 524288)"
proof -
  show "fl (- (4985171243851603 / 6032057205060440848842124543157735677050252251748505781796615064961622344493727293370973578138265743708225425014400837164813540499979063179105919597766951022193355091707896034850684039059079180396788349106095584290087446076413771468940477241550670753145517602931224392424029547429993824129889235158145614364972941312)) = Num (- (4985171243851603 / 6032057205060440848842124543157735677050252251748505781796615064961622344493727293370973578138265743708225425014400837164813540499979063179105919597766951022193355091707896034850684039059079180396788349106095584290087446076413771468940477241550670753145517602931224392424029547429993824129889235158145614364972941312))"
    by (rule fl_neg_small[where b=1049]) (simp_all add: rhe_def)
  show "fl (6032057205060441 / 7298789218123134552183008242801547165077106737617593085448956519413850852775317813847481710730230167745250520748076046943830947435778832893220712690227756515234605004316908615298944043805739277492947433967345554176194935822340536753521810539146905323688190637638387544808705909477220131542298298066916811288212406272) = Num (4985171243851603 / 6032057205060440848842124543157735677050252251748505781796615064961622344493727293370973578138265743708225425014400837164813540499979063179105919597766951022193355091707896034850684039059079180396788349106095584290087446076413771468940477241550670753145517602931224392424029547429993824129889235158145614364972941312)"
    by (rule fl_pos_small[where b=1049]) (simp_all add: rhe_def)
  show "fl (1 / 1000000000000000000000000000000000000000000000000000000000000000000000000000000000000000000000000000000000000000000000000000000000000000000000000000000000000000000000000000000000000000000000000000000000000000000000000000000000000000000000000000000000000000000000000000000000000000000000000000000000000) = Num (6032057205060441 / 6032057205060440848842124543157735677050252251748505781796615064961622344493727293370973578138265743708225425014400837164813540499979063179105919597766951022193355091707896034850684039059079180396788349106095584290087446076413771468940477241550670753145517602931224392424029547429993824129889235158145614364972941312)"
    by (rule fl_pos_small[where b=1049]) (simp_all add: rhe_def)
  show "fl (6032057205060441 / 6032057205060440848842124543157735677050252251748505781796615064961622344493727293370973578138265743708225425014400837164813540499979063179105919597766951022193355091707896034850684039059079180396788349106095584290087446076413771468940477241550670753145517602931224392424029547429993824129889235158145614364972941312) = Num (6032057205060441 / 6032057205060440848842124543157735677050252251748505781796615064961622344493727293370973578138265743708225425014400837164813540499979063179105919597766951022193355091707896034850684039059079180396788349106095584290087446076413771468940477241550670753145517602931224392424029547429993824129889235158145614364972941312)"
    by (rule fl_pos_small[where b=1049]) (simp_all add: rhe_def)
  show "fl (1 / 1000000) = Num (4722366482869645 / 4722366482869645213696)"
    by (rule fl_pos_small[where b=72]) (simp_all add: rhe_def)
  show "fl (1 / 10) = Num (3602879701896397 / 36028797018963968)"
    by (rule fl_pos_small[where b=56]) (simp_all add: rhe_def)
  show "fl (39631676720860365 / 36028797018963968) = Num (2476979795053773 / 2251799813685248)"
    by (rule fl_pos_small[where b=52]) (simp_all add: rhe_def)
  show "fl (2476979795053773 / 2251799813685248) = Num (2476979795053773 / 2251799813685248)"
    by (rule fl_pos_small[where b=52]) (simp_all add: rhe_def)
  show "fl (6135428905104631294035961535529 / 5070602400912917605986812821504) = Num (5449355549118301 / 4503599627370496)"
    by (rule fl_pos_small[where b=52]) (simp_all add: rhe_def)
  show "fl (4766254545454545 / 524288) = Num (4766254545454545 / 524288)"
    by (rule fl_pos_small[where b=19]) (simp_all add: rhe_def)
  show "fl (54836883682367638850730194429242229124296283629641736582218016394759264268340614442058281823047124718555436302820777905276810226468366533372533267196670536773468882230824527509031137086268420874815323864714494564002018176403593738062348124960631363969305126111673322451839957788671267784533656654755031262653029408030178041683 / 6032057205060440848842124543157735677050252251748505781796615064961622344493727293370973578138265743708225425014400837164813540499979063179105919597766951022193355091707896034850684039059079180396788349106095584290087446076413771468940477241550670753145517602931224392424029547429993824129889235158145614364972941312) = Num (4766254545454545 / 524288)"
    by (rule fl_pos_small[where b=19]) (simp_all add: rhe_def)
  show "fl (22517998136852480000000000 / 2476979795053773) = Num (4766254545454545 / 524288)"
    by (rule fl_pos_small[where b=19]) (simp_all add: rhe_def)
qed

text \<open>
  A returned rate need not be finite: on the doubles \<open>1e10\<close> and \<open>1e-300\<close> the first Newton
  step overflows, the next guess is \<open>Infinity\<close>, and the NPV there is 0.
\<close>

lemma irr_overflow_quotient:
  "fl (- (54836883682367638850730194429242229124296283629641736582218016394759264268340614442058281823047124718555436302820777905276810226468366533372533267196670536773468882230824527509031137086268420874815323864714494564002018176403593738062348124960631363969305126111673322451839957788671267784533656654755031262653024422858934190080 / 4985171243851603)) = NegInfinity"
  by (rule fl_overflow) (simp add: dtop_def)

lemma irr_overflow_iterations:
  "irr_loop [Num 10000000000, Num (6032057205060441 / 6032057205060440848842124543157735677050252251748505781796615064961622344493727293370973578138265743708225425014400837164813540499979063179105919597766951022193355091707896034850684039059079180396788349106095584290087446076413771468940477241550670753145517602931224392424029547429993824129889235158145614364972941312)] (Suc n) (Num (3602879701896397 / 36028797018963968)) = irr_loop [Num 10000000000, Num (6032057205060441 / 6032057205060440848842124543157735677050252251748505781796615064961622344493727293370973578138265743708225425014400837164813540499979063179105919597766951022193355091707896034850684039059079180396788349106095584290087446076413771468940477241550670753145517602931224392424029547429993824129889235158145614364972941312)] n Infinity"
  "irr_loop [Num 10000000000, Num (6032057205060441 / 6032057205060440848842124543157735677050252251748505781796615064961622344493727293370973578138265743708225425014400837164813540499979063179105919597766951022193355091707896034850684039059079180396788349106095584290087446076413771468940477241550670753145517602931224392424029547429993824129889235158145614364972941312)] (Suc n) Infinity = NpvConverged Infinity"
  by (simp_all only: irr_loop.simps)
     (simp_all add: calculateNPV_def derivativeNpv_def reduce_def epsilon_def fp_add_def
        fp_sub_def fp_div_def fp_pow_def js_sub_def rounding_irr_overflow irr_overflow_quotient
        split del: if_split)

lemma calculateIRR_overflow:
  "fl (1 / 10 ^ 300) = Num (6032057205060441 / 6032057205060440848842124543157735677050252251748505781796615064961622344493727293370973578138265743708225425014400837164813540499979063179105919597766951022193355091707896034850684039059079180396788349106095584290087446076413771468940477241550670753145517602931224392424029547429993824129889235158145614364972941312)
   \<and> calculateIRR [Num 10000000000, fl (1 / 10 ^ 300)] = Some Infinity"
proof -
  have c: "fl (1 / 10 ^ 300) = Num (6032057205060441 / 6032057205060440848842124543157735677050252251748505781796615064961622344493727293370973578138265743708225425014400837164813540499979063179105919597766951022193355091707896034850684039059079180396788349106095584290087446076413771468940477241550670753145517602931224392424029547429993824129889235158145614364972941312)"
    using rounding_irr_overflow by simp
  have e: "(100::nat) = Suc (Suc 98)" by simp
  have "irr_run [Num 10000000000, Num (6032057205060441 / 6032057205060440848842124543157735677050252251748505781796615064961622344493727293370973578138265743708225425014400837164813540499979063179105919597766951022193355091707896034850684039059079180396788349106095584290087446076413771468940477241550670753145517602931224392424029547429993824129889235158145614364972941312)] = NpvConverged Infinity"
    unfolding irr_run_def e rounding_irr_overflow irr_overflow_iterations by (rule refl)
  with c show ?thesis by (simp add: calculateIRR_def)
qed

section \<open>The cash flow schedule\<close>

lemma cashFlows_nth:
  "y < operationalYears (evDetails a) \<Longrightarrow> cashFlows a ! y = cashFlowRow a y"
  by (simp add: cashFlows_def)

lemma length_cashFlows: "length (cashFlows a) = operationalYears (evDetails a)"
  by (simp add: cashFlows_def)

lemma macrs_percentage:
  "or_zero (js_index macrsSchedule y) =
     (if y = 0 then 0.2 else if y = 1 then 0.32 else if y = 2 then 0.192
      else if y = 3 then 0.1152 else if y = 4 then 0.1152 else if y = 5 then 0.0576
      else 0)"
proof (cases "y < 20")
  case False
  then show ?thesis by (simp add: or_zero_def js_index_def macrsSchedule_def)
next
  case True
  then have "y \<in> set [0..<20]" by simp
  then have "y \<in> {0,1,2,3,4,5,6,7,8,9,10,11,12,13,14,15,16,17,18,19}"
    unfolding upt_conv_Cons by (simp add: eval_nat_numeral)
  then show ?thesis
    by (auto simp: or_zero_def js_index_def macrsSchedule_def)
qed

lemma depreciation_row:
  "depreciation (cashFlowRow a y) =
     or_zero (js_index macrsSchedule y) * (totalProjectCost a - 0.5 * baseTaxCreditAmount a)"
  by (simp add: cashFlowRow_def Let_def)

lemma cumulative_row:
  "cumulativeCashFlow (cashFlowRow a y) =
     js_add (if y = 0 then Num (- netProjectCost a) else Num 0) (cashFlow (cashFlowRow a y))"
  by (simp add: cashFlowRow_def Let_def)

lemma default_totals:
  "totalProjectCost defaultAssumptions = 380000"
  "baseTaxCreditAmount defaultAssumptions = 114000"
  "netProjectCost defaultAssumptions = 206000"
  by (simp_all add: netProjectCost_def totalIncentives_def baseTaxCreditAmount_def
        additionalTaxCreditAmount_def utilityRebateAmount_def totalProjectCost_def
        totalSolarCost_def totalEvStationsCost_def totalBatteryCost_def
        defaultAssumptions_def)

lemma default_energy:
  "evEnergyDemand defaultAssumptions = 262800"
  "solarEnergyUsed defaultAssumptions = 120000"
  "discountRate defaultAssumptions = 0.1"
  by (simp_all add: evEnergyDemand_def solarEnergyUsed_def discountRate_def
        defaultAssumptions_def)

lemma default_row0: "cashFlow (cashFlowRow defaultAssumptions 0) = Num (2277099 / 25)"
  by (simp add: cashFlowRow_def Let_def default_totals default_energy or_zero_def
        js_index_def macrsSchedule_def js_gt_def)
     (simp add: defaultAssumptions_def)

lemma default_row1: "cashFlow (cashFlowRow defaultAssumptions 1) = Num (2497128 / 25)"
  by (simp add: cashFlowRow_def Let_def default_totals default_energy or_zero_def
        js_index_def macrsSchedule_def js_gt_def)
     (simp add: defaultAssumptions_def)

text \<open>
  Claim C1: in the schedule the cumulative cash flow of each year is the running sum
  of the net cash flows up to that year, offset by minus \<open>netProjectCost\<close>. In the code
  the accumulator is declared inside the per-year callback, so it starts again each
  year: with the initial state of the component, the second year's \<open>cumulativeCashFlow\<close>
  is that year's own cash flow 99885.12, while the running sum is -15030.92.
\<close>

theorem cumulativeCashFlow_not_running_sum:
  "cumulativeCashFlow (cashFlows defaultAssumptions ! 1) = Num (2497128 / 25)
   \<and> js_add (js_add (Num (- netProjectCost defaultAssumptions))
                    (cashFlow (cashFlows defaultAssumptions ! 0)))
            (cashFlow (cashFlows defaultAssumptions ! 1)) = Num (- (375773 / 25))
   \<and> cumulativeCashFlow (cashFlows defaultAssumptions ! 1)
       \<noteq> js_add (js_add (Num (- netProjectCost defaultAssumptions))
                        (cashFlow (cashFlows defaultAssumptions ! 0)))
                (cashFlow (cashFlows defaultAssumptions ! 1))"
proof -
  have y: "0 < operationalYears (evDetails defaultAssumptions)"
          "1 < operationalYears (evDetails defaultAssumptions)"
    by (simp_all add: defaultAssumptions_def)
  show ?thesis
    unfolding cashFlows_nth[OF y(1)] cashFlows_nth[OF y(2)] cumulative_row
      default_row0 default_row1 default_totals
    by simp
qed

text \<open>
  Claim C6: the depreciation percentages are 20, 32, 19.2, 11.52, 11.52 and 5.76
  percent for the year offsets 0 to 5 and 0 for every later year; the nonzero entries
  sum to 100 percent; and each year's depreciation is the year's percentage times the
  depreciable basis, which is the total project cost minus half the base tax credit.
\<close>

theorem depreciation_table:
  "(\<forall>y. or_zero (js_index macrsSchedule y) =
          (if y = 0 then 0.2 else if y = 1 then 0.32 else if y = 2 then 0.192
           else if y = 3 then 0.1152 else if y = 4 then 0.1152
           else if y = 5 then 0.0576 else 0))
   \<and> sum_list (filter (\<lambda>p. p \<noteq> 0) macrsSchedule) = 1
   \<and> (\<forall>y<operationalYears (evDetails a).
         depreciation (cashFlows a ! y) =
           or_zero (js_index macrsSchedule y)
             * (totalProjectCost a - 0.5 * baseTaxCreditAmount a))"
proof (intro conjI allI impI)
  fix y
  show "or_zero (js_index macrsSchedule y) =
          (if y = 0 then 0.2 else if y = 1 then 0.32 else if y = 2 then 0.192
           else if y = 3 then 0.1152 else if y = 4 then 0.1152
           else if y = 5 then 0.0576 else 0)"
    by (rule macrs_percentage)
next
  show "sum_list (filter (\<lambda>p. p \<noteq> 0) macrsSchedule) = 1"
    by (simp add: macrsSchedule_def)
next
  fix y assume "y < operationalYears (evDetails a)"
  then show "depreciation (cashFlows a ! y) =
           or_zero (js_index macrsSchedule y)
             * (totalProjectCost a - 0.5 * baseTaxCreditAmount a)"
    by (simp only: cashFlows_nth depreciation_row)
qed

theorem depreciation_table_witness:
  "1 < operationalYears (evDetails defaultAssumptions)
   \<and> depreciation (cashFlows defaultAssumptions ! 1) = 103360"
proof -
  have y: "1 < operationalYears (evDetails defaultAssumptions)"
    by (simp add: defaultAssumptions_def)
  from depreciation_table[of defaultAssumptions, THEN conjunct2, THEN conjunct2,
        rule_format, OF y]
  have "depreciation (cashFlows defaultAssumptions ! 1) =
          or_zero (js_index macrsSchedule 1) * (380000 - 0.5 * 114000)"
    by (simp only: default_totals)
  then have "depreciation (cashFlows defaultAssumptions ! 1) = 103360"
    by (simp add: macrs_percentage)
  with y show ?thesis by (intro conjI)
qed

section \<open>The metrics bundle\<close>

lemma financialMetrics_roi: "financialMetrics a ''roi'' = Some (Number (roi a))"
  by (simp add: financialMetrics_def object_literal_def)

lemma financialMetrics_annualizedROI:
  "financialMetrics a ''annualizedROI'' = Some (Number (annualizedROI a))"
  by (simp add: financialMetrics_def object_literal_def)

lemma financialMetrics_irr:
  "financialMetrics a ''irr'' =
     Some (case irr a of Some r \<Rightarrow> Number (js_mul r (Num 100)) | None \<Rightarrow> Null)"
  by (simp add: financialMetrics_def object_literal_def)

lemma financialMetrics_incentivePercentage:
  "financialMetrics a ''incentivePercentage'' =
     Some (Number (js_mul (js_div (Num (totalIncentives a)) (Num (totalProjectCost a)))
                          (Num 100)))"
  by (simp add: financialMetrics_def object_literal_def)

lemma oneYear_totals:
  "totalProjectCost oneYearAssumptions = 380000"
  "baseTaxCreditAmount oneYearAssumptions = 114000"
  "netProjectCost oneYearAssumptions = 206000"
  "evEnergyDemand oneYearAssumptions = 262800"
  "solarEnergyUsed oneYearAssumptions = 120000"
  "discountRate oneYearAssumptions = 0.1"
  by (simp_all add: netProjectCost_def totalIncentives_def baseTaxCreditAmount_def
        additionalTaxCreditAmount_def utilityRebateAmount_def totalProjectCost_def
        totalSolarCost_def totalEvStationsCost_def totalBatteryCost_def
        evEnergyDemand_def solarEnergyUsed_def discountRate_def
        oneYearAssumptions_def defaultAssumptions_def)

lemma oneYear_cashFlowsOnly: "cashFlowsOnly oneYearAssumptions = [Num (2277099 / 25)]"
proof -
  have "operationalYears (evDetails oneYearAssumptions) = 1"
    by (simp add: oneYearAssumptions_def)
  then have "cashFlows oneYearAssumptions = [cashFlowRow oneYearAssumptions 0]"
    by (simp add: cashFlows_def)
  moreover have "cashFlow (cashFlowRow oneYearAssumptions 0) = Num (2277099 / 25)"
    by (simp add: cashFlowRow_def Let_def oneYear_totals or_zero_def js_index_def
        macrsSchedule_def js_gt_def)
       (simp add: oneYearAssumptions_def defaultAssumptions_def)
  ultimately show ?thesis by (simp add: cashFlowsOnly_def)
qed

lemma oneYear_roi: "roi oneYearAssumptions = Num (- (2872901 / 51500))"
  by (simp add: roi_def totalCashFlow_def oneYear_cashFlowsOnly reduce_def
        initialInvestment_def oneYear_totals)

lemma oneYear_years: "operationalYears (evDetails oneYearAssumptions) = 1"
  by (simp add: oneYearAssumptions_def)

text \<open>
  Claim C7, as the code has it: in the bundle \<open>roi\<close> is
  \<open>((sum of cash flows - initialInvestment) / initialInvestment) * 100\<close>, a percentage,
  and \<open>annualizedROI\<close> is that \<open>roi\<close> divided by \<open>operationalYears\<close>, a percentage as well;
  the IRR solver's result is multiplied by 100 when it is not \<open>null\<close>, and
  \<open>incentivePercentage\<close> is multiplied by 100 too. The display appends the percent sign
  to these values unchanged.
\<close>

theorem metrics_percent_scaling:
  "financialMetrics a ''roi'' =
      Some (Number (js_mul (js_div (js_sub (totalCashFlow a) (Num (initialInvestment a)))
                                   (Num (initialInvestment a))) (Num 100)))
   \<and> financialMetrics a ''annualizedROI'' =
      Some (Number (js_div (roi a) (Num (real (operationalYears (evDetails a))))))
   \<and> financialMetrics a ''irr'' =
      Some (case calculateIRR (Num (- initialInvestment a) # cashFlowsOnly a) of
              Some r \<Rightarrow> Number (js_mul r (Num 100)) | None \<Rightarrow> Null)
   \<and> financialMetrics a ''incentivePercentage'' =
      Some (Number (js_mul (js_div (Num (totalIncentives a)) (Num (totalProjectCost a)))
                           (Num 100)))"
  by (simp add: financialMetrics_roi financialMetrics_annualizedROI financialMetrics_irr
        financialMetrics_incentivePercentage roi_def annualizedROI_def irr_def
        totalYears_def)

theorem metrics_percent_scaling_witness:
  "financialMetrics oneYearAssumptions ''roi''
     = Some (Number (js_mul (Num (- (2872901 / 5150000))) (Num 100)))"
proof -
  have "js_div (js_sub (totalCashFlow oneYearAssumptions)
                       (Num (initialInvestment oneYearAssumptions)))
               (Num (initialInvestment oneYearAssumptions)) = Num (- (2872901 / 5150000))"
    by (simp add: totalCashFlow_def oneYear_cashFlowsOnly reduce_def
          initialInvestment_def oneYear_totals)
  with metrics_percent_scaling[of oneYearAssumptions, THEN conjunct1]
  show ?thesis by (simp only:)
qed

text \<open>
  With the initial state of the component and a horizon of one year the fraction
  \<open>(sum of cash flows - initialInvestment) / initialInvestment\<close> is about -0.5578, and
  the \<open>roi\<close> of the bundle is about -55.78.
\<close>

theorem roi_not_fraction_counterexample:
  "financialMetrics oneYearAssumptions ''roi'' = Some (Number (Num (- (2872901 / 51500))))
   \<and> js_div (js_sub (totalCashFlow oneYearAssumptions)
                    (Num (initialInvestment oneYearAssumptions)))
            (Num (initialInvestment oneYearAssumptions)) = Num (- (2872901 / 5150000))
   \<and> financialMetrics oneYearAssumptions ''roi''
       \<noteq> Some (Number (js_div (js_sub (totalCashFlow oneYearAssumptions)
                                      (Num (initialInvestment oneYearAssumptions)))
                              (Num (initialInvestment oneYearAssumptions))))"
  by (simp add: financialMetrics_roi roi_def totalCashFlow_def oneYear_cashFlowsOnly
        reduce_def initialInvestment_def oneYear_totals)

text \<open>
  Claim C9: the \<open>annualizedROI\<close> property of the bundle is \<open>roi / operationalYears\<close>,
  with \<open>roi\<close> the value already multiplied by 100. The object literal first defines
  \<open>annualizedROI: annualizedROI * 100\<close>; the shorthand \<open>annualizedROI\<close> at its end
  replaces that property, so the exposed value is not multiplied by 100 a second time.
\<close>

theorem annualizedROI_single_scaling:
  "financialMetrics a ''annualizedROI''
     = Some (Number (js_div (roi a) (Num (real (operationalYears (evDetails a))))))
   \<and> roi a = js_mul (js_div (js_sub (totalCashFlow a) (Num (netProjectCost a)))
                            (Num (netProjectCost a))) (Num 100)"
  by (simp add: financialMetrics_def object_literal_def annualizedROI_def totalYears_def
        roi_def initialInvestment_def)

theorem annualizedROI_single_scaling_witness:
  "financialMetrics oneYearAssumptions ''annualizedROI''
     = Some (Number (Num (- (2872901 / 51500))))"
  using annualizedROI_single_scaling[of oneYearAssumptions, THEN conjunct1]
  by (simp add: oneYear_roi oneYear_years)

end
